theory Spec2Isabelle
  imports Main "HOL-Library.Sublist"
begin

section \<open>Values of the JavaScript runtime\<close>

text \<open>
  JSON values as the program handles them: tool arguments, tool results, parameter
  schemas and structured message contents. Numbers are the integer-valued ones.
  Strings are lists of characters; the characters \<open>0x0A\<close> (line feed), \<open>0x22\<close>
  (double quote) and \<open>0x5C\<close> (backslash) are written by their codes.
\<close>

datatype json =
    JNull
  | JBool bool
  | JNum int
  | JStr string
  | JArr "json list"
  | JObj "(string \<times> json) list"

abbreviation LF :: char where
  "LF \<equiv> CHR 0x0A"

abbreviation DQ :: char where
  "DQ \<equiv> CHR 0x22"

abbreviation BSL :: char where
  "BSL \<equiv> CHR 0x5C"

text \<open>A thrown \<open>Error\<close> object: its \<open>message\<close> and, for JSON-RPC errors, its \<open>code\<close>.\<close>

datatype js_error = Error (err_code: "int option") (err_message: string)

text \<open>
  The character of a digit below 16, and the decimal digits of a natural number as
  \<open>String(n)\<close> prints them.
\<close>

definition digit_char :: "nat \<Rightarrow> char" where
  "digit_char n = ''0123456789abcdef'' ! n"

fun digits :: "nat \<Rightarrow> string" where
  "digits n =
     (if n < 10 then [digit_char n]
      else digits (n div 10) @ [digit_char (n mod 10)])"

declare digits.simps [simp del]

definition show_int :: "int \<Rightarrow> string" where
  "show_int i = (if i < 0 then CHR ''-'' # digits (nat (- i)) else digits (nat i))"

text \<open>
  \<open>JSON.stringify\<close> on a string: the quote and the backslash are escaped, the control
  characters below \<open>0x20\<close> are written with their short escapes or as \<open>\u00XX\<close>.
\<close>

definition escape_char :: "char \<Rightarrow> string" where
  "escape_char c =
     (let n = (of_char c :: nat) in
      if c = DQ then [BSL, DQ]
      else if c = BSL then [BSL, BSL]
      else if n = 8 then [BSL, CHR ''b'']
      else if n = 9 then [BSL, CHR ''t'']
      else if n = 10 then [BSL, CHR ''n'']
      else if n = 12 then [BSL, CHR ''f'']
      else if n = 13 then [BSL, CHR ''r'']
      else if n < 32 then [BSL, CHR ''u'', CHR ''0'', CHR ''0'', digit_char (n div 16), digit_char (n mod 16)]
      else [c])"

definition quote :: "string \<Rightarrow> string" where
  "quote s = DQ # concat (map escape_char s) @ [DQ]"

fun intersperse :: "string \<Rightarrow> string list \<Rightarrow> string" where
  "intersperse sep [] = []"
| "intersperse sep [x] = x"
| "intersperse sep (x # y # ys) = x @ sep @ intersperse sep (y # ys)"

text \<open>\<open>JSON.stringify(v)\<close> with no indentation.\<close>

fun JSON_stringify :: "json \<Rightarrow> string" where
  "JSON_stringify JNull = ''null''"
| "JSON_stringify (JBool b) = (if b then ''true'' else ''false'')"
| "JSON_stringify (JNum i) = show_int i"
| "JSON_stringify (JStr s) = quote s"
| "JSON_stringify (JArr vs) = ''['' @ intersperse '','' (map JSON_stringify vs) @ '']''"
| "JSON_stringify (JObj kvs) =
     ''{'' @ intersperse '','' (map (\<lambda>(k, v). quote k @ '':'' @ JSON_stringify v) kvs) @ ''}''"

text \<open>\<open>typeof v === "object"\<close>: true of \<open>null\<close>, arrays and objects.\<close>

fun typeof_object :: "json \<Rightarrow> bool" where
  "typeof_object JNull = True"
| "typeof_object (JArr vs) = True"
| "typeof_object (JObj kvs) = True"
| "typeof_object v = False"

text \<open>\<open>String(v)\<close> for the values that are not objects.\<close>

fun String_of :: "json \<Rightarrow> string" where
  "String_of (JStr s) = s"
| "String_of (JBool b) = (if b then ''true'' else ''false'')"
| "String_of (JNum i) = show_int i"
| "String_of JNull = ''null''"
| "String_of (JArr vs) = intersperse '','' (map String_of vs)"
| "String_of (JObj kvs) = ''[object Object]''"

text \<open>JavaScript truthiness, as \<open>||\<close> and \<open>if (v)\<close> test it.\<close>

fun truthy :: "json \<Rightarrow> bool" where
  "truthy JNull = False"
| "truthy (JBool b) = b"
| "truthy (JNum i) = (i \<noteq> 0)"
| "truthy (JStr s) = (s \<noteq> [])"
| "truthy v = True"

text \<open>
  \<open>toUpperCase\<close> and \<open>toLowerCase\<close> on the ASCII letters; every other character is
  left as it is.
\<close>

definition toUpperCase :: "string \<Rightarrow> string" where
  "toUpperCase s =
     map (\<lambda>c. let n = (of_char c :: nat) in if 97 \<le> n \<and> n \<le> 122 then char_of (n - 32) else c) s"

definition toLowerCase :: "string \<Rightarrow> string" where
  "toLowerCase s =
     map (\<lambda>c. let n = (of_char c :: nat) in if 65 \<le> n \<and> n \<le> 90 then char_of (n + 32) else c) s"

text \<open>
  An optional string (\<open>string | undefined\<close>): it is falsy when it is absent or empty;
  in a template it reads as its text.
\<close>

fun falsy :: "string option \<Rightarrow> bool" where
  "falsy None = True"
| "falsy (Some t) = (t = [])"

fun string_of :: "string option \<Rightarrow> string" where
  "string_of None = ''undefined''"
| "string_of (Some t) = t"

abbreviation SQ :: char where
  "SQ \<equiv> CHR 0x27"

section \<open>Data model of the chat client\<close>

text \<open>The content of a conversation message: \<open>string | any[]\<close>.\<close>

datatype msg_content = Text string | Structured "json list"

record ConversationMessage =
  role :: string
  content :: msg_content

text \<open>
  A tool as the session keeps it (\<open>McpTool\<close>): optional fields are options. The tool
  lists of \<open>mcpConnection.ts\<close> carry no \<open>serverName\<close>; the chat session adds it.
\<close>

record McpTool =
  name :: string
  description :: "string option"
  parameters :: "json option"
  serverName :: "string option"

text \<open>One entry of \<open>tool_calls\<close> in a model response.\<close>

datatype ToolCall =
  ToolCall (tc_id: string) (tc_type: string) (tc_name: string) (tc_arguments: string)

text \<open>
  \<open>OpenAIMessage\<close>: a chat message with role, content (\<open>null\<close> is \<open>None\<close>) and optional
  \<open>tool_calls\<close>, or a tool message with the id of the call it answers.
\<close>

datatype OpenAIMessage =
    ChatMsg string "string option" "ToolCall list option"
  | ToolMsg string string

text \<open>The fields \<open>role\<close>, \<open>content\<close> and \<open>tool_call_id\<close> of a message as it is sent.\<close>

fun sent_role :: "OpenAIMessage \<Rightarrow> string" where
  "sent_role (ChatMsg r c t) = r"
| "sent_role (ToolMsg i c) = ''tool''"


fun sent_tool_call_id :: "OpenAIMessage \<Rightarrow> string option" where
  "sent_tool_call_id (ChatMsg r c t) = None"
| "sent_tool_call_id (ToolMsg i c) = Some i"

section \<open>callLLM: formatting the history\<close>

text \<open>The function mapped over the history at lines 93-102 of \<open>llmClient.ts\<close>.\<close>

definition formatMessage :: "ConversationMessage \<Rightarrow> OpenAIMessage" where
  "formatMessage msg =
     ChatMsg
       (if role msg = ''system'' \<or> role msg = ''user'' \<or> role msg = ''assistant''
        then role msg else ''user'')
       (Some (case content msg of
                Text s \<Rightarrow> s
              | Structured vs \<Rightarrow> JSON_stringify (JArr vs)))
       None"

definition formatMessages :: "ConversationMessage list \<Rightarrow> OpenAIMessage list" where
  "formatMessages history = map formatMessage history"


text \<open>One function declaration of the \<open>tools\<close> field of a request (lines 130-137).\<close>

record FunctionTool =
  fn_name :: string
  fn_description :: string
  fn_parameters :: json

definition formatTool :: "McpTool \<Rightarrow> FunctionTool" where
  "formatTool tool =
     \<lparr> fn_name = name tool,
       fn_description =
         (case description tool of
            None \<Rightarrow> ''Call the '' @ name tool @ '' tool''
          | Some d \<Rightarrow> if d = [] then ''Call the '' @ name tool @ '' tool'' else d),
       fn_parameters =
         (case parameters tool of
            None \<Rightarrow> JObj [(''type'', JStr ''object''), (''properties'', JObj [])]
          | Some p \<Rightarrow>
              if truthy p then p
              else JObj [(''type'', JStr ''object''), (''properties'', JObj [])]) \<rparr>"

section \<open>The world outside the program\<close>

text \<open>
  A request to the model provider: the URL, the bearer token, and the fields of the
  JSON body. \<open>req_tools\<close> is \<open>None\<close> when the body has no \<open>tools\<close> field.
\<close>

record request =
  req_url :: string
  req_authorization :: string
  req_model :: string
  req_messages :: "OpenAIMessage list"
  req_temperature :: string
  req_tools :: "FunctionTool list option"

text \<open>
  A model response, with the fields the program reads: the choices, each with the
  content and the tool calls of its message. A response with no \<open>choices\<close> field has the
  empty list.
\<close>

datatype OpenAIResponseChoice =
  Choice (msg_content: "string option") (msg_tool_calls: "ToolCall list option")

record OpenAIResponse =
  choices :: "OpenAIResponseChoice list"

text \<open>
  What \<open>fetch\<close> gives back: \<open>ok\<close>, \<open>status\<close>, \<open>statusText\<close>, the body as \<open>text()\<close> reads
  it and as \<open>json()\<close> parses it (which throws on a malformed body).
\<close>

record http_response =
  ok :: bool
  status :: nat
  statusText :: string
  body_text :: string
  body_json :: "js_error + OpenAIResponse"

text \<open>A tool as the MCP client library lists it, and a resource.\<close>

record raw_tool =
  raw_name :: string
  raw_description :: "string option"
  raw_inputSchema :: "json option"
  raw_parameters :: "json option"

record resource =
  uri :: string
  res_name :: string

text \<open>
  An entry of the configuration file, with the fields \<open>connect\<close> tests: the command of
  a stdio server and the URL of an SSE server.
\<close>

record ServerConfig =
  command :: "string option"
  cfg_url :: "string option"

text \<open>
  Everything the program observes or causes outside itself, in the order it happens:
  console output, requests to the model provider, calls on an MCP client (named by the
  handle of the client object), the prompt of the readline interface and its closing.
\<close>

datatype event =
    ConsoleLog string
  | ConsoleLogJson string json
  | ConsoleError string
  | ConsoleErrorObj string js_error
  | Fetch request
  | ClientListTools nat
  | ClientListResources nat
  | ClientCallTool nat string json
  | ClientClose nat
  | ClientConnect string
  | Question string
  | RlClose

text \<open>
  The runtime the program runs against. The environment variables and the parser are
  fixed; the remote parties answer as a function of a world state \<open>'w\<close> that they may
  change, so servers and the model provider may answer differently each time.
  \<open>client_connect\<close> builds the transport and the client of a server and connects it:
  the handle of the client, or the error thrown. \<open>mcpServers\<close> is the configuration
  file's table of servers, in the order of \<open>Object.keys\<close>; \<open>cwd_env_file\<close> and
  \<open>home_env_file\<close> are the contents of the two \<open>.env\<close> files, \<open>None\<close> for a file
  that is missing or unreadable.
\<close>

record 'w runtime =
  LLM_PROVIDER :: "string option"
  OPENAI_API_KEY :: "string option"
  DEEPSEEK_API_KEY :: "string option"
  JSON_parse :: "string \<Rightarrow> json option"
  fetch :: "'w \<Rightarrow> request \<Rightarrow> (js_error + http_response) \<times> 'w"
  client_listTools :: "'w \<Rightarrow> nat \<Rightarrow> (js_error + raw_tool list) \<times> 'w"
  client_listResources :: "'w \<Rightarrow> nat \<Rightarrow> (js_error + resource list) \<times> 'w"
  client_callTool :: "'w \<Rightarrow> nat \<Rightarrow> string \<Rightarrow> json \<Rightarrow> (js_error + json) \<times> 'w"
  client_close :: "'w \<Rightarrow> nat \<Rightarrow> js_error option \<times> 'w"
  client_connect :: "'w \<Rightarrow> string \<Rightarrow> (js_error + nat) \<times> 'w"
  mcpServers :: "(string \<times> ServerConfig) list"
  cwd_env_file :: "string option"
  home_env_file :: "string option"

text \<open>The state threaded through the program: the world and the trace of events so far.\<close>

record 'w st =
  world :: 'w
  trace :: "event list"

definition emit :: "event \<Rightarrow> 'w st \<Rightarrow> 'w st" where
  "emit e s = s\<lparr>trace := trace s @ [e]\<rparr>"

text \<open>The requests sent to the model provider, and the prompts shown, in a trace.\<close>

fun fetches :: "event list \<Rightarrow> request list" where
  "fetches [] = []"
| "fetches (Fetch req # es) = req # fetches es"
| "fetches (e # es) = fetches es"

fun questions :: "event list \<Rightarrow> string list" where
  "questions [] = []"
| "questions (Question q # es) = q # questions es"
| "questions (e # es) = questions es"

text \<open>The calls of tools on MCP clients in a trace: client handle, tool name, arguments.\<close>

fun toolCallsMade :: "event list \<Rightarrow> (nat \<times> string \<times> json) list" where
  "toolCallsMade [] = []"
| "toolCallsMade (ClientCallTool h n a # es) = (h, n, a) # toolCallsMade es"
| "toolCallsMade (e # es) = toolCallsMade es"

section \<open>mcpConnection.ts\<close>

text \<open>
  An \<open>McpConnection\<close>: the server name and the client, \<open>None\<close> while no client is
  established. The fields are named after the accessors of the class.
\<close>

record McpConnection =
  getServerName :: string
  getClient :: "nat option"

text \<open>The description and parameters of a listed tool (lines 174-195).\<close>

definition toolData :: "raw_tool \<Rightarrow> McpTool" where
  "toolData tool =
     \<lparr> name = raw_name tool,
       description = Some (case raw_description tool of None \<Rightarrow> [] | Some d \<Rightarrow> d),
       parameters =
         Some (case raw_inputSchema tool of
                 Some i \<Rightarrow>
                   if truthy i then i
                   else (case raw_parameters tool of
                           Some p \<Rightarrow>
                             if truthy p then p
                             else JObj [(''type'', JStr ''object''), (''properties'', JObj [])]
                         | None \<Rightarrow> JObj [(''type'', JStr ''object''), (''properties'', JObj [])])
               | None \<Rightarrow>
                   (case raw_parameters tool of
                      Some p \<Rightarrow>
                        if truthy p then p
                        else JObj [(''type'', JStr ''object''), (''properties'', JObj [])]
                    | None \<Rightarrow> JObj [(''type'', JStr ''object''), (''properties'', JObj [])])),
       serverName = None \<rparr>"

text \<open>\<open>listTools\<close>: \<open>None\<close> is the \<open>null\<close> the method returns.\<close>

definition listTools ::
  "'w runtime \<Rightarrow> McpConnection \<Rightarrow> 'w st \<Rightarrow> McpTool list option \<times> 'w st" where
  "listTools rt conn s =
     (case getClient conn of
        None \<Rightarrow> (None, s)
      | Some h \<Rightarrow>
          (let (response, w) = client_listTools rt (world s) h;
               s1 = emit (ClientListTools h) (s\<lparr>world := w\<rparr>)
           in case response of
                Inr tools \<Rightarrow> (Some (map toolData tools), s1)
              | Inl error \<Rightarrow>
                  if err_code error = Some (- 32601) then (None, s1)
                  else (None, emit (ConsoleErrorObj ''Error listing tools:'' error) s1)))"

definition listResources ::
  "'w runtime \<Rightarrow> McpConnection \<Rightarrow> 'w st \<Rightarrow> resource list option \<times> 'w st" where
  "listResources rt conn s =
     (case getClient conn of
        None \<Rightarrow> (None, s)
      | Some h \<Rightarrow>
          (let (response, w) = client_listResources rt (world s) h;
               s1 = emit (ClientListResources h) (s\<lparr>world := w\<rparr>)
           in case response of
                Inr resources \<Rightarrow> (Some resources, s1)
              | Inl error \<Rightarrow>
                  if err_code error = Some (- 32601) then (None, s1)
                  else (None, emit (ConsoleErrorObj ''Error listing resources:'' error) s1)))"

text \<open>\<open>callTool\<close>: \<open>Inl\<close> is a thrown error, \<open>Inr\<close> the result of the call.\<close>

definition callTool ::
  "'w runtime \<Rightarrow> McpConnection \<Rightarrow> string \<Rightarrow> json \<Rightarrow> 'w st \<Rightarrow> (js_error + json) \<times> 'w st" where
  "callTool rt conn toolName args s =
     (case getClient conn of
        None \<Rightarrow> (Inl (Error None ''MCP client is not connected''), s)
      | Some h \<Rightarrow>
          (let s1 = emit (ConsoleLogJson (''Calling MCP tool '' @ toolName @ '' with args:'') args) s;
               (response, w) = client_callTool rt (world s1) h toolName args;
               s2 = emit (ClientCallTool h toolName args) (s1\<lparr>world := w\<rparr>)
           in case response of
                Inr result \<Rightarrow> (Inr result, s2)
              | Inl error \<Rightarrow>
                  (let s3 = emit (ConsoleErrorObj (''Error calling tool '' @ toolName @ '':'') error) s2
                   in if err_code error = Some (- 32601)
                      then (Inl (Error None (''Tool '' @ toolName @ '' not found on server ''
                                              @ getServerName conn)), s3)
                      else (Inl error, s3))))"

section \<open>callLLM: dispatching tool calls\<close>

text \<open>
  The \<open>try\<close> block of the loop body up to the call of the tool (lines 196-220): the tool
  is the first of \<open>mcpTools\<close> with the requested name, its connection the first of
  \<open>mcpConnections\<close> with the tool's server name. \<open>Inl\<close> is the error thrown to the \<open>catch\<close>
  of line 239, \<open>Inr\<close> the server name and the tool's result.
\<close>

definition tryDispatch ::
  "'w runtime \<Rightarrow> McpTool list \<Rightarrow> McpConnection list \<Rightarrow> string \<Rightarrow> json \<Rightarrow> 'w st
     \<Rightarrow> (js_error + string \<times> json) \<times> 'w st" where
  "tryDispatch rt mcpTools mcpConnections toolName toolArgs s =
     (case find (\<lambda>t. name t = toolName) mcpTools of
        None \<Rightarrow> (Inl (Error None (''Tool '' @ toolName @ '' not found'')), s)
      | Some tool \<Rightarrow>
          (case serverName tool of
             None \<Rightarrow> (Inl (Error None (''No server name found for tool '' @ toolName)), s)
           | Some sn \<Rightarrow>
               if sn = [] then (Inl (Error None (''No server name found for tool '' @ toolName)), s)
               else
                 (case find (\<lambda>c. getServerName c = sn) mcpConnections of
                    None \<Rightarrow> (Inl (Error None (''No connection found for server '' @ sn)), s)
                  | Some connection \<Rightarrow>
                      (let s1 = emit (ConsoleLog (''Calling tool '' @ toolName @ '' on server '' @ sn)) s;
                           (r, s2) = callTool rt connection toolName toolArgs s1
                       in case r of
                            Inl error \<Rightarrow> (Inl error, s2)
                          | Inr toolResult \<Rightarrow> (Inr (sn, toolResult), s2)))))"

text \<open>The arguments of a call (lines 189-194): the parsed payload, or the placeholder.\<close>

definition parseArgs :: "'w runtime \<Rightarrow> ToolCall \<Rightarrow> 'w st \<Rightarrow> json \<times> 'w st" where
  "parseArgs rt toolCall s =
     (case JSON_parse rt (tc_arguments toolCall) of
        Some v \<Rightarrow> (v, s)
      | None \<Rightarrow>
          (JObj [(''_error'', JStr ''Failed to parse arguments'')],
           emit (ConsoleError ''Error parsing tool arguments:'') s))"

text \<open>The content of the tool message of a call that succeeded (lines 226-229).\<close>

definition resultContent :: "json \<Rightarrow> string" where
  "resultContent toolResult =
     (if typeof_object toolResult then JSON_stringify toolResult else String_of toolResult)"

text \<open>The content of the tool message of a call that failed (line 245).\<close>

definition errorContent :: "js_error \<Rightarrow> string" where
  "errorContent error = JSON_stringify (JObj [(''error'', JStr (err_message error))])"

text \<open>
  One iteration of the loop over the tool calls (lines 184-250), on the messages of the
  follow-up request, the text for the user and the state.
\<close>

definition processToolCall ::
  "'w runtime \<Rightarrow> McpTool list \<Rightarrow> McpConnection list \<Rightarrow> ToolCall
     \<Rightarrow> OpenAIMessage list \<times> string \<times> 'w st \<Rightarrow> OpenAIMessage list \<times> string \<times> 'w st" where
  "processToolCall rt mcpTools mcpConnections toolCall acc =
     (case acc of (updatedMessages, result, s) \<Rightarrow>
        (let toolName = tc_name toolCall;
             (toolArgs, s0) = parseArgs rt toolCall s;
             (r, s1) = tryDispatch rt mcpTools mcpConnections toolName toolArgs s0
         in case r of
              Inr (sn, toolResult) \<Rightarrow>
                (updatedMessages @ [ToolMsg (tc_id toolCall) (resultContent toolResult)],
                 result @ ''- Used '' @ toolName @ '' on server '' @ sn @ [LF]
                        @ ''  Result: '' @ resultContent toolResult @ [LF, LF],
                 s1)
            | Inl error \<Rightarrow>
                (updatedMessages @ [ToolMsg (tc_id toolCall) (errorContent error)],
                 result @ ''- Error using '' @ toolName @ '': '' @ err_message error @ [LF],
                 emit (ConsoleErrorObj ''Error with MCP tool call:'' error) s1)))"

fun dispatchLoop ::
  "'w runtime \<Rightarrow> McpTool list \<Rightarrow> McpConnection list \<Rightarrow> ToolCall list
     \<Rightarrow> OpenAIMessage list \<times> string \<times> 'w st \<Rightarrow> OpenAIMessage list \<times> string \<times> 'w st" where
  "dispatchLoop rt mcpTools mcpConnections [] acc = acc"
| "dispatchLoop rt mcpTools mcpConnections (toolCall # rest) acc =
     dispatchLoop rt mcpTools mcpConnections rest
       (processToolCall rt mcpTools mcpConnections toolCall acc)"


section \<open>callLLM\<close>

text \<open>The provider, its key, model and URL (lines 78-84, 110-119).\<close>

definition provider :: "'w runtime \<Rightarrow> string" where
  "provider rt = (if falsy (LLM_PROVIDER rt) then ''openai'' else string_of (LLM_PROVIDER rt))"

definition apiKey :: "'w runtime \<Rightarrow> string option" where
  "apiKey rt = (if provider rt = ''deepseek'' then DEEPSEEK_API_KEY rt else OPENAI_API_KEY rt)"

definition llmModel :: "'w runtime \<Rightarrow> string" where
  "llmModel rt = (if provider rt = ''deepseek'' then ''deepseek-chat'' else ''gpt-4o'')"

definition apiUrl :: "'w runtime \<Rightarrow> string" where
  "apiUrl rt =
     (if provider rt = ''deepseek'' then ''https://api.deepseek.com/v1/chat/completions''
      else ''https://api.openai.com/v1/chat/completions'')"

text \<open>The first request of a turn (lines 93-153): the formatted history and the tools.\<close>

definition firstRequest ::
  "'w runtime \<Rightarrow> ConversationMessage list \<Rightarrow> McpTool list \<Rightarrow> request" where
  "firstRequest rt history mcpTools =
     \<lparr> req_url = apiUrl rt,
       req_authorization = ''Bearer '' @ string_of (apiKey rt),
       req_model = llmModel rt,
       req_messages = formatMessages history,
       req_temperature = ''0.7'',
       req_tools = (if mcpTools \<noteq> [] then Some (map formatTool mcpTools) else None) \<rparr>"

text \<open>The follow-up request (lines 258-272): the updated messages and no tools.\<close>

definition followUpRequest :: "'w runtime \<Rightarrow> OpenAIMessage list \<Rightarrow> request" where
  "followUpRequest rt updatedMessages =
     \<lparr> req_url = apiUrl rt,
       req_authorization = ''Bearer '' @ string_of (apiKey rt),
       req_model = llmModel rt,
       req_messages = updatedMessages,
       req_temperature = ''0.7'',
       req_tools = None \<rparr>"

text \<open>
  One call of the API (lines 145-164 and 257-281): the request is sent; a failure of
  \<open>fetch\<close> is thrown, a response that is not \<open>ok\<close> throws the API error, otherwise the
  body is parsed.
\<close>

definition readResponse :: "'w runtime \<Rightarrow> http_response \<Rightarrow> js_error + OpenAIResponse" where
  "readResponse rt response =
     (if \<not> ok response
      then Inl (Error None (toUpperCase (provider rt) @ '' API error: ''
                            @ digits (status response) @ '' '' @ statusText response
                            @ '' - '' @ body_text response))
      else body_json response)"

definition modelReply ::
  "'w runtime \<Rightarrow> request \<Rightarrow> 'w st \<Rightarrow> (js_error + OpenAIResponse) \<times> 'w st" where
  "modelReply rt req s =
     (let (r, w) = fetch rt (world s) req;
          s1 = emit (Fetch req) (s\<lparr>world := w\<rparr>)
      in case r of
           Inl error \<Rightarrow> (Inl error, s1)
         | Inr response \<Rightarrow> (readResponse rt response, s1))"

text \<open>
  \<open>choices[0].message.content || ""\<close>: reading the first choice of a response that has
  none throws a \<open>TypeError\<close>.
\<close>

definition firstContent :: "OpenAIResponse \<Rightarrow> js_error + string" where
  "firstContent response =
     (case choices response of
        [] \<Rightarrow> Inl (Error None ''Cannot read properties of undefined'')
      | c # cs \<Rightarrow> Inr (case msg_content c of None \<Rightarrow> [] | Some t \<Rightarrow> t))"

text \<open>\<open>choices?.[0]?.message?.tool_calls\<close> (line 168).\<close>

definition firstToolCalls :: "OpenAIResponse \<Rightarrow> ToolCall list option" where
  "firstToolCalls response =
     (case choices response of [] \<Rightarrow> None | c # cs \<Rightarrow> msg_tool_calls c)"

text \<open>
  The messages of the follow-up request before the loop (lines 174-181), and the text
  for the user (line 171).
\<close>

definition initialMessages :: "ConversationMessage list \<Rightarrow> ToolCall list \<Rightarrow> OpenAIMessage list" where
  "initialMessages history toolCalls =
     formatMessages history @ [ChatMsg ''assistant'' None (Some toolCalls)]"

definition initialResult :: string where
  "initialResult = ''I need to use some tools to help answer that:'' @ [LF, LF]"

text \<open>The follow-up request and the answer of the turn (lines 257-285).\<close>

definition followUp ::
  "'w runtime \<Rightarrow> OpenAIMessage list \<Rightarrow> string \<Rightarrow> 'w st \<Rightarrow> (js_error + string) \<times> 'w st" where
  "followUp rt updatedMessages result s =
     (let (r, s1) = modelReply rt (followUpRequest rt updatedMessages) s
      in case r of
           Inl error \<Rightarrow> (Inl error, s1)
         | Inr finalJsonResponse \<Rightarrow>
             (case firstContent finalJsonResponse of
                Inl error \<Rightarrow> (Inl error, s1)
              | Inr c \<Rightarrow> (Inr (''Tools used:'' @ [LF] @ result @ [LF] @ c), s1)))"

text \<open>The body of the outer \<open>try\<close> of \<open>callLLM\<close> (lines 77-289).\<close>

definition callLLM_try ::
  "'w runtime \<Rightarrow> ConversationMessage list \<Rightarrow> McpTool list \<Rightarrow> McpConnection list \<Rightarrow> 'w st
     \<Rightarrow> (js_error + string) \<times> 'w st" where
  "callLLM_try rt history mcpTools mcpConnections s =
     (if falsy (apiKey rt)
      then (Inl (Error None (toUpperCase (provider rt)
                             @ ''_API_KEY environment variable is not set'')), s)
      else
        (let (r, s1) = modelReply rt (firstRequest rt history mcpTools) s
         in case r of
              Inl error \<Rightarrow> (Inl error, s1)
            | Inr jsonResponse \<Rightarrow>
                (case firstToolCalls jsonResponse of
                   Some (toolCall # rest) \<Rightarrow>
                     (let toolCalls = toolCall # rest;
                          (updatedMessages, result, s2) =
                             dispatchLoop rt mcpTools mcpConnections toolCalls
                               (initialMessages history toolCalls, initialResult, s1)
                      in followUp rt updatedMessages result s2)
                 | _ \<Rightarrow>
                     (case firstContent jsonResponse of
                        Inl error \<Rightarrow> (Inl error, s1)
                      | Inr c \<Rightarrow> (Inr c, s1)))))"

text \<open>\<open>callLLM\<close>: the \<open>catch\<close> of line 290 logs the error and throws it again.\<close>

definition callLLM ::
  "'w runtime \<Rightarrow> ConversationMessage list \<Rightarrow> McpTool list \<Rightarrow> McpConnection list \<Rightarrow> 'w st
     \<Rightarrow> (js_error + string) \<times> 'w st" where
  "callLLM rt history mcpTools mcpConnections s =
     (let (r, s1) = callLLM_try rt history mcpTools mcpConnections s
      in case r of
           Inl error \<Rightarrow> (Inl error, emit (ConsoleErrorObj ''Error in callLLM:'' error) s1)
         | Inr answer \<Rightarrow> (Inr answer, s1))"

section \<open>Connecting to the configured servers\<close>

text \<open>
  \<open>McpConnection.connect\<close>: success, message and the connection. A connection whose
  \<open>connect\<close> failed is dropped by its callers, so its client is left \<open>None\<close> here.
\<close>

definition connect :: "'w runtime \<Rightarrow> string \<Rightarrow> 'w st \<Rightarrow> (bool \<times> string \<times> McpConnection) \<times> 'w st" where
  "connect rt sn s =
     (case map_of (mcpServers rt) sn of
        None \<Rightarrow>
          ((False, ''Server '' @ [DQ] @ sn @ [DQ] @ '' not found in configuration'',
            \<lparr> getServerName = sn, getClient = None \<rparr>), s)
      | Some serverConfig \<Rightarrow>
          if \<not> falsy (command serverConfig) \<and> falsy (cfg_url serverConfig) then
            (let (r, w) = client_connect rt (world s) sn;
                 s1 = emit (ClientConnect sn) (s\<lparr>world := w\<rparr>)
             in case r of
                  Inr h \<Rightarrow>
                    ((True, ''Connected to '' @ sn @ '' via stdio'',
                      \<lparr> getServerName = sn, getClient = Some h \<rparr>), s1)
                | Inl error \<Rightarrow>
                    ((False, ''Failed to connect to '' @ sn @ '': '' @ err_message error,
                      \<lparr> getServerName = sn, getClient = None \<rparr>), s1))
          else if \<not> falsy (cfg_url serverConfig) then
            (let (r, w) = client_connect rt (world s) sn;
                 s1 = emit (ClientConnect sn) (s\<lparr>world := w\<rparr>)
             in case r of
                  Inr h \<Rightarrow>
                    ((True, ''Connected to '' @ sn @ '' via SSE'',
                      \<lparr> getServerName = sn, getClient = Some h \<rparr>), s1)
                | Inl error \<Rightarrow>
                    ((False, ''Failed to connect to '' @ sn @ '': '' @ err_message error,
                      \<lparr> getServerName = sn, getClient = None \<rparr>), s1))
          else
            ((False, ''Server configuration for '' @ sn @ '' is missing required parameters'',
              \<lparr> getServerName = sn, getClient = None \<rparr>), s))"

text \<open>The loop of \<open>connectToAllServers\<close> over the server names (lines 270-281).\<close>

fun connectLoop ::
  "'w runtime \<Rightarrow> string list \<Rightarrow> McpConnection list \<times> 'w st \<Rightarrow> McpConnection list \<times> 'w st" where
  "connectLoop rt [] acc = acc"
| "connectLoop rt (sn # rest) (connections, s) =
     (let s1 = emit (ConsoleLog (''Connecting to server: '' @ sn)) s;
          ((success, message, connection), s2) = connect rt sn s1
      in if success
         then connectLoop rt rest (connections @ [connection], emit (ConsoleLog message) s2)
         else connectLoop rt rest (connections, emit (ConsoleError message) s2))"

definition connectToAllServers :: "'w runtime \<Rightarrow> 'w st \<Rightarrow> McpConnection list \<times> 'w st" where
  "connectToAllServers rt s =
     (let serverNames = map fst (mcpServers rt)
      in if serverNames = []
         then ([], emit (ConsoleError (''Run '' @ [DQ] @ ''mcp-terminal configure'' @ [DQ]
                                       @ '' to set up servers.''))
                     (emit (ConsoleError ''No servers configured.'') s))
         else connectLoop rt serverNames
                ([], emit (ConsoleLog (''Starting '' @ digits (length serverNames)
                                       @ '' servers...'')) s))"

text \<open>
  \<open>disconnect\<close> closes the client of a connection; \<open>Some\<close> is an error thrown by
  \<open>close\<close>. The child process of a stdio server, which \<open>disconnect\<close> kills, is not
  part of the model. The loop of lines 175-177 of the chat command stops at the first
  error.
\<close>

definition disconnect :: "'w runtime \<Rightarrow> McpConnection \<Rightarrow> 'w st \<Rightarrow> js_error option \<times> 'w st" where
  "disconnect rt conn s =
     (case getClient conn of
        None \<Rightarrow> (None, s)
      | Some h \<Rightarrow>
          (let (r, w) = client_close rt (world s) h
           in (r, emit (ClientClose h) (s\<lparr>world := w\<rparr>))))"

fun disconnectAll :: "'w runtime \<Rightarrow> McpConnection list \<Rightarrow> 'w st \<Rightarrow> js_error option \<times> 'w st" where
  "disconnectAll rt [] s = (None, s)"
| "disconnectAll rt (connection # rest) s =
     (case disconnect rt connection s of
        (Some error, s1) \<Rightarrow> (Some error, s1)
      | (None, s1) \<Rightarrow> disconnectAll rt rest s1)"

section \<open>The chat session\<close>

text \<open>\<open>checkOpenAIKey\<close> (lines 182-221): the environment variable, then the two files.\<close>

definition envFileHasKey :: "string option \<Rightarrow> bool" where
  "envFileHasKey file =
     (case file of
        None \<Rightarrow> False
      | Some envContent \<Rightarrow>
          sublist ''OPENAI_API_KEY='' envContent \<and> \<not> sublist ''OPENAI_API_KEY=your_'' envContent)"

definition checkOpenAIKey :: "'w runtime \<Rightarrow> bool" where
  "checkOpenAIKey rt =
     (if \<not> falsy (OPENAI_API_KEY rt) then True
      else if envFileHasKey (cwd_env_file rt) then True
      else if envFileHasKey (home_env_file rt) then True
      else False)"

text \<open>
  The loop that fetches the tools of every connection (lines 81-109), on the combined
  list \<open>allTools\<close>, the map \<open>toolToServerMap\<close> and the state.
\<close>

fun fetchAllTools ::
  "'w runtime \<Rightarrow> McpConnection list \<Rightarrow> McpTool list \<times> (string \<rightharpoonup> string) \<times> 'w st
     \<Rightarrow> McpTool list \<times> (string \<rightharpoonup> string) \<times> 'w st" where
  "fetchAllTools rt [] acc = acc"
| "fetchAllTools rt (connection # rest) (allTools, toolToServerMap, s) =
     (let sn = getServerName connection;
          s1 = emit (ConsoleLog (''Fetching tools from server: '' @ sn)) s;
          (serverTools, s2) = listTools rt connection s1
      in case serverTools of
           Some (t # ts) \<Rightarrow>
             (let mappedTools = map (\<lambda>tool. tool\<lparr>serverName := Some sn\<rparr>) (t # ts)
              in fetchAllTools rt rest
                   (allTools @ mappedTools,
                    fold (\<lambda>tool m. m(name tool \<mapsto> sn)) (t # ts) toolToServerMap,
                    emit (ConsoleLog (''Found '' @ digits (length mappedTools)
                                      @ '' tools on server '' @ sn)) s2))
         | _ \<Rightarrow>
             fetchAllTools rt rest
               (allTools, toolToServerMap,
                emit (ConsoleLog (''No tools found on server '' @ sn)) s2))"

definition errorMessage :: string where
  "errorMessage =
     ''I'' @ [SQ] @ ''m sorry, I encountered an error processing your request. Please try again.''"

text \<open>
  The chat loop (lines 133-171) on the lines the user types. Each round asks the
  question; with no line left the session waits at the prompt, and the loop is still
  active. The result is \<open>chatActive\<close>, the history and the state.
\<close>

fun chatLoop ::
  "'w runtime \<Rightarrow> McpTool list \<Rightarrow> McpConnection list \<Rightarrow> string list
     \<Rightarrow> ConversationMessage list \<times> 'w st \<Rightarrow> bool \<times> ConversationMessage list \<times> 'w st" where
  "chatLoop rt allTools connections [] (history, s) =
     (True, history, emit (Question ''You: '') s)"
| "chatLoop rt allTools connections (userInput # rest) (history, s) =
     (let s1 = emit (Question ''You: '') s
      in if toLowerCase userInput = ''exit'' \<or> toLowerCase userInput = ''quit''
         then (False, history, s1)
         else
           (let history1 = history @ [\<lparr> role = ''user'', content = Text userInput \<rparr>];
                s2 = emit (ConsoleLog ''AI is thinking...'') s1;
                (r, s3) = callLLM rt history1 allTools connections s2
            in case r of
                 Inr response \<Rightarrow>
                   chatLoop rt allTools connections rest
                     (history1 @ [\<lparr> role = ''assistant'', content = Text response \<rparr>],
                      emit (ConsoleLog (''AI: '' @ response)) s3)
               | Inl error \<Rightarrow>
                   chatLoop rt allTools connections rest
                     (history1 @ [\<lparr> role = ''assistant'', content = Text errorMessage \<rparr>],
                      emit (ConsoleLog (''AI: '' @ errorMessage))
                        (emit (ConsoleErrorObj ''Error calling LLM:'' error) s3))))"

text \<open>
  How a run of \<open>startChatSession\<close> on the given input lines ends: it returned, it threw,
  or it waits for the next line.
\<close>

datatype session_status = Returned | Threw js_error | AwaitingUserInput

definition systemMessage :: ConversationMessage where
  "systemMessage =
     \<lparr> role = ''system'',
       content = Text (''You'' @ [SQ] @ ''re an AI assistant powered by MCP. You can help with various tasks using MCP tools.'') \<rparr>"

text \<open>The two lines printed when the session starts (lines 31-32).\<close>

definition greeting :: "'w st \<Rightarrow> 'w st" where
  "greeting s =
     emit (ConsoleLog (''Type '' @ [SQ] @ ''exit'' @ [SQ] @ '' or '' @ [SQ] @ ''quit''
                       @ [SQ] @ '' to end the session.'' @ [LF]))
       (emit (ConsoleLog ''Starting chat session with LLM...'') s)"

definition noServersMessage :: string where
  "noServersMessage = ''No MCP servers could be connected. Please check your configuration.''"

definition startChatSession ::
  "'w runtime \<Rightarrow> string list \<Rightarrow> 'w st \<Rightarrow> session_status \<times> ConversationMessage list \<times> 'w st" where
  "startChatSession rt inputs s =
     (let s1 = greeting s
      in if \<not> checkOpenAIKey rt
         then (Returned, [],
               emit RlClose
                 (emit (ConsoleLog (''You can create a .env file in the current directory or in your home directory with:''
                                    @ [LF] @ ''OPENAI_API_KEY=your_api_key''))
                    (emit (ConsoleLog ''OpenAI API key not found. Please set the OPENAI_API_KEY environment variable.'')
                       s1)))
         else
           (let history = [systemMessage];
                (connections, s2) =
                   connectToAllServers rt
                     (emit (ConsoleLog ''Connecting to all available MCP servers...'') s1)
            in if connections = []
               then (Returned, history,
                     emit RlClose
                       (emit (ConsoleLog noServersMessage) s2))
               else
                 (let s3 = emit (ConsoleLog (''Connected to '' @ digits (length connections)
                                             @ '' MCP servers'')) s2;
                      (allTools, toolToServerMap, s4) =
                         fetchAllTools rt connections ([], Map.empty, s3);
                      s5 = emit (ConsoleLog [])
                             (emit (ConsoleLog
                                      (if allTools \<noteq> []
                                       then ''Total tools available: '' @ digits (length allTools)
                                       else ''No tools found on any server'')) s4);
                      (chatActive, history1, s6) =
                         chatLoop rt allTools connections inputs (history, s5)
                  in if chatActive then (AwaitingUserInput, history1, s6)
                     else
                       (case disconnectAll rt connections
                               (emit (ConsoleLog ''Disconnecting from all MCP servers...'') s6) of
                          (Some error, s7) \<Rightarrow> (Threw error, history1, s7)
                        | (None, s7) \<Rightarrow> (Returned, history1, emit RlClose s7)))))"


section \<open>Notions used to state the properties\<close>

text \<open>
  The outcome of dispatching one tool call in a state: the error caught at line 239, or
  the server name and the result of the tool.
\<close>

definition dispatchOutcome ::
  "'w runtime \<Rightarrow> McpTool list \<Rightarrow> McpConnection list \<Rightarrow> ToolCall \<Rightarrow> 'w st
     \<Rightarrow> js_error + string \<times> json" where
  "dispatchOutcome rt mcpTools mcpConnections toolCall s =
     fst (tryDispatch rt mcpTools mcpConnections (tc_name toolCall)
            (fst (parseArgs rt toolCall s)) (snd (parseArgs rt toolCall s)))"

text \<open>The tool message that answers a call with a given outcome.\<close>

definition toolMessage :: "ToolCall \<Rightarrow> js_error + string \<times> json \<Rightarrow> OpenAIMessage" where
  "toolMessage toolCall outcome =
     ToolMsg (tc_id toolCall)
       (case outcome of
          Inr (sn, toolResult) \<Rightarrow> resultContent toolResult
        | Inl error \<Rightarrow> errorContent error)"

text \<open>The state in which the loop reaches the call of index \<open>i\<close> of a batch.\<close>

definition stateBefore ::
  "'w runtime \<Rightarrow> McpTool list \<Rightarrow> McpConnection list \<Rightarrow> ToolCall list
     \<Rightarrow> OpenAIMessage list \<times> string \<times> 'w st \<Rightarrow> nat \<Rightarrow> 'w st" where
  "stateBefore rt mcpTools mcpConnections toolCalls acc i =
     snd (snd (dispatchLoop rt mcpTools mcpConnections (take i toolCalls) acc))"

text \<open>
  What the connections list, in the order the session asks them: for each connection
  its server name and the result of \<open>listTools\<close>, in the states the loop of lines 81-109
  goes through.
\<close>

fun toolListings ::
  "'w runtime \<Rightarrow> McpConnection list \<Rightarrow> 'w st \<Rightarrow> (string \<times> McpTool list) list" where
  "toolListings rt [] s = []"
| "toolListings rt (connection # rest) s =
     (let sn = getServerName connection;
          s1 = emit (ConsoleLog (''Fetching tools from server: '' @ sn)) s;
          (serverTools, s2) = listTools rt connection s1
      in case serverTools of
           Some (t # ts) \<Rightarrow>
             (sn, t # ts)
               # toolListings rt rest
                   (emit (ConsoleLog (''Found '' @ digits (length (t # ts))
                                      @ '' tools on server '' @ sn)) s2)
         | _ \<Rightarrow>
             (sn, [])
               # toolListings rt rest (emit (ConsoleLog (''No tools found on server '' @ sn)) s2))"

text \<open>The servers that list a tool name, in the order of the listings.\<close>

definition owners :: "(string \<times> McpTool list) list \<Rightarrow> string \<Rightarrow> string list" where
  "owners listings n = map fst (filter (\<lambda>(sn, ts). n \<in> name ` set ts) listings)"

text \<open>
  The tools of the listings, each with the name of the server that listed it, in the
  order of the listings; and the map that sends each listed name to the server of its
  last listing.
\<close>

definition tagTools :: "(string \<times> McpTool list) list \<Rightarrow> McpTool list" where
  "tagTools listings =
     concat (map (\<lambda>(sn, ts). map (\<lambda>tool. tool\<lparr>serverName := Some sn\<rparr>) ts) listings)"

definition lastOwner :: "(string \<times> McpTool list) list \<Rightarrow> string \<rightharpoonup> string" where
  "lastOwner listings n =
     (if owners listings n = [] then None else Some (last (owners listings n)))"

section \<open>A sample runtime\<close>

text \<open>
  Two configured servers. \<open>serverA\<close> (client 1) lists the tools \<open>search\<close> and \<open>broken\<close>,
  \<open>serverB\<close> (client 2) lists \<open>search\<close> too; client 3 answers \<open>listTools\<close> with JSON-RPC
  error -32601, any other client with another error. Calling \<open>broken\<close> throws, any other tool
  returns \<open>{"result":42}\<close>. The world counts the requests made to the model: the
  first is answered with four tool calls, the later ones with the text \<open>Hello\<close> and one
  more tool call. Only \<open>{}\<close> parses as JSON.
\<close>

definition searchTool :: raw_tool where
  "searchTool = \<lparr> raw_name = ''search'', raw_description = Some ''Search the web'',
                  raw_inputSchema = None, raw_parameters = None \<rparr>"

definition brokenTool :: raw_tool where
  "brokenTool = \<lparr> raw_name = ''broken'', raw_description = None,
                  raw_inputSchema = None, raw_parameters = None \<rparr>"

definition sample_calls :: "ToolCall list" where
  "sample_calls =
     [ToolCall ''call_1'' ''function'' ''search'' ''{}'',
      ToolCall ''call_2'' ''function'' ''lookup'' ''{}'',
      ToolCall ''call_3'' ''function'' ''broken'' ''{}'',
      ToolCall ''call_4'' ''function'' ''search'' ''oops'']"

definition sample_reply :: "nat \<Rightarrow> OpenAIResponse" where
  "sample_reply w =
     \<lparr> choices =
         [if w = 0 then Choice None (Some sample_calls)
          else Choice (Some ''Hello'')
                 (Some [ToolCall ''call_9'' ''function'' ''search'' ''{}''])] \<rparr>"

definition sample_rt :: "nat runtime" where
  "sample_rt =
     \<lparr> LLM_PROVIDER = None,
       OPENAI_API_KEY = Some ''sk-test'',
       DEEPSEEK_API_KEY = None,
       JSON_parse = (\<lambda>a. if a = ''{}'' then Some (JObj []) else None),
       fetch = (\<lambda>w req. (Inr \<lparr> ok = True, status = 200, statusText = ''OK'', body_text = [],
                                body_json = Inr (sample_reply w) \<rparr>, Suc w)),
       client_listTools =
         (\<lambda>w h. (if h = 1 then Inr [searchTool, brokenTool]
                  else if h = 2 then Inr [searchTool]
                  else if h = 3 then Inl (Error (Some (- 32601)) ''Method not found'')
                  else Inl (Error None ''Connection closed''), w)),
       client_listResources =
         (\<lambda>w h. (if h = 3 then Inl (Error (Some (- 32601)) ''Method not found'')
                  else Inr [], w)),
       client_callTool =
         (\<lambda>w h n a. (if n = ''broken'' then Inl (Error None ''boom'')
                      else Inr (JObj [(''result'', JNum 42)]), w)),
       client_close = (\<lambda>w h. (None, w)),
       client_connect =
         (\<lambda>w sn. (if sn = ''serverA'' then Inr 1 else if sn = ''serverB'' then Inr 2
                   else Inl (Error None ''spawn ENOENT''), w)),
       mcpServers =
         [(''serverA'', \<lparr> command = Some ''node'', cfg_url = None \<rparr>),
          (''serverB'', \<lparr> command = None, cfg_url = Some ''http://localhost:3000/sse'' \<rparr>)],
       cwd_env_file = None,
       home_env_file = None \<rparr>"

text \<open>
  The sample runtime with a model provider that cannot be reached, and with a single
  configured server whose process cannot be started.
\<close>

definition offline_rt :: "nat runtime" where
  "offline_rt = sample_rt\<lparr> fetch := (\<lambda>w req. (Inl (Error None ''fetch failed''), w)) \<rparr>"

definition unreachable_rt :: "nat runtime" where
  "unreachable_rt =
     sample_rt\<lparr> mcpServers := [(''serverC'', \<lparr> command = Some ''nope'', cfg_url = None \<rparr>)] \<rparr>"

definition s0 :: "nat st" where
  "s0 = \<lparr> world = 0, trace = [] \<rparr>"

definition serverA :: McpConnection where
  "serverA = \<lparr> getServerName = ''serverA'', getClient = Some 1 \<rparr>"

definition serverB :: McpConnection where
  "serverB = \<lparr> getServerName = ''serverB'', getClient = Some 2 \<rparr>"

definition sample_tools :: "McpTool list" where
  "sample_tools =
     [\<lparr> name = ''search'', description = Some ''Search the web'',
        parameters = Some (JObj [(''type'', JStr ''object''), (''properties'', JObj [])]),
        serverName = Some ''serverA'' \<rparr>,
      \<lparr> name = ''broken'', description = Some [],
        parameters = Some (JObj [(''type'', JStr ''object''), (''properties'', JObj [])]),
        serverName = Some ''serverA'' \<rparr>,
      \<lparr> name = ''search'', description = Some ''Search the web'',
        parameters = Some (JObj [(''type'', JStr ''object''), (''properties'', JObj [])]),
        serverName = Some ''serverB'' \<rparr>]"

definition sample_history :: "ConversationMessage list" where
  "sample_history = [systemMessage, \<lparr> role = ''user'', content = Text ''hi'' \<rparr>]"

text \<open>
  The tool messages of the sample batch, and the answer of the sample turn.
\<close>

definition sample_messages :: "OpenAIMessage list" where
  "sample_messages =
     [ToolMsg ''call_1'' (''{'' @ [DQ] @ ''result'' @ [DQ] @ '':42}''),
      ToolMsg ''call_2'' (''{'' @ [DQ] @ ''error'' @ [DQ] @ '':'' @ [DQ]
                           @ ''Tool lookup not found'' @ [DQ] @ ''}''),
      ToolMsg ''call_3'' (''{'' @ [DQ] @ ''error'' @ [DQ] @ '':'' @ [DQ] @ ''boom'' @ [DQ] @ ''}''),
      ToolMsg ''call_4'' (''{'' @ [DQ] @ ''result'' @ [DQ] @ '':42}'')]"

definition sample_result :: string where
  "sample_result =
     ''I need to use some tools to help answer that:'' @ [LF, LF]
     @ ''- Used search on server serverA'' @ [LF]
     @ ''  Result: {'' @ [DQ] @ ''result'' @ [DQ] @ '':42}'' @ [LF, LF]
     @ ''- Error using lookup: Tool lookup not found'' @ [LF]
     @ ''- Error using broken: boom'' @ [LF]
     @ ''- Used search on server serverA'' @ [LF]
     @ ''  Result: {'' @ [DQ] @ ''result'' @ [DQ] @ '':42}'' @ [LF, LF]"

definition sample_answer :: string where
  "sample_answer = ''Tools used:'' @ [LF] @ sample_result @ [LF] @ ''Hello''"

text \<open>What the dispatch of the sample batch adds to the trace.\<close>

definition sample_events :: "event list" where
  "sample_events =
     [ConsoleLog ''Calling tool search on server serverA'',
      ConsoleLogJson ''Calling MCP tool search with args:'' (JObj []),
      ClientCallTool 1 ''search'' (JObj []),
      ConsoleErrorObj ''Error with MCP tool call:'' (Error None ''Tool lookup not found''),
      ConsoleLog ''Calling tool broken on server serverA'',
      ConsoleLogJson ''Calling MCP tool broken with args:'' (JObj []),
      ClientCallTool 1 ''broken'' (JObj []),
      ConsoleErrorObj ''Error calling tool broken:'' (Error None ''boom''),
      ConsoleErrorObj ''Error with MCP tool call:'' (Error None ''boom''),
      ConsoleError ''Error parsing tool arguments:'',
      ConsoleLog ''Calling tool search on server serverA'',
      ConsoleLogJson ''Calling MCP tool search with args:''
        (JObj [(''_error'', JStr ''Failed to parse arguments'')]),
      ClientCallTool 1 ''search'' (JObj [(''_error'', JStr ''Failed to parse arguments'')])]"

text \<open>
  The sample runtime without an API key, and a connection whose server is configured
  under the empty name.
\<close>

definition keyless_rt :: "nat runtime" where
  "keyless_rt = sample_rt\<lparr> OPENAI_API_KEY := None \<rparr>"

definition unnamed :: McpConnection where
  "unnamed = \<lparr> getServerName = [], getClient = Some 1 \<rparr>"

text \<open>
  The events of connecting to the servers: lines on the console and attempts to
  connect a client.
\<close>

fun connectEvent :: "event \<Rightarrow> bool" where
  "connectEvent (ConsoleLog l) = True"
| "connectEvent (ConsoleError l) = True"
| "connectEvent (ClientConnect sn) = True"
| "connectEvent e = False"

section \<open>Traces of the dispatch loop\<close>

lemma trace_emit [simp]: "trace (emit e s) = trace s @ [e]"
  by (simp add: emit_def)

lemma world_emit [simp]: "world (emit e s) = world s"
  by (simp add: emit_def)

lemma fetches_append [simp]: "fetches (xs @ ys) = fetches xs @ fetches ys"
  by (induction xs rule: fetches.induct) simp_all

lemma questions_append [simp]: "questions (xs @ ys) = questions xs @ questions ys"
  by (induction xs rule: questions.induct) simp_all

lemma toolCallsMade_append [simp]: "toolCallsMade (xs @ ys) = toolCallsMade xs @ toolCallsMade ys"
  by (induction xs rule: toolCallsMade.induct) simp_all

lemma callTool_quiet:
  "fetches (trace (snd (callTool rt c n a s))) = fetches (trace s) \<and>
   questions (trace (snd (callTool rt c n a s))) = questions (trace s)"
  by (simp add: callTool_def Let_def split: option.splits sum.splits prod.splits)

lemma parseArgs_quiet:
  "fetches (trace (snd (parseArgs rt tc s))) = fetches (trace s) \<and>
   questions (trace (snd (parseArgs rt tc s))) = questions (trace s)"
  by (simp add: parseArgs_def split: option.splits)

lemma tryDispatch_quiet:
  "fetches (trace (snd (tryDispatch rt ts cs n a s))) = fetches (trace s) \<and>
   questions (trace (snd (tryDispatch rt ts cs n a s))) = questions (trace s)"
proof -
  have *: "fetches (trace s') = fetches (trace s) \<and> questions (trace s') = questions (trace s)"
    if "callTool rt c n a (emit (ConsoleLog m) s) = (r, s')" for c m r s'
    using callTool_quiet [of rt c n a "emit (ConsoleLog m) s"] that by simp
  show ?thesis
    unfolding tryDispatch_def Let_def
    by (auto split: option.splits sum.splits prod.splits dest: *)
qed

lemma processToolCall_quiet:
  "fetches (trace (snd (snd (processToolCall rt ts cs tc acc)))) = fetches (trace (snd (snd acc))) \<and>
   questions (trace (snd (snd (processToolCall rt ts cs tc acc)))) = questions (trace (snd (snd acc)))"
proof -
  obtain um res s where acc: "acc = (um, res, s)" by (cases acc) auto
  obtain a s0 where p: "parseArgs rt tc s = (a, s0)" by (cases "parseArgs rt tc s") auto
  obtain r s1 where d: "tryDispatch rt ts cs (tc_name tc) a s0 = (r, s1)"
    by (cases "tryDispatch rt ts cs (tc_name tc) a s0") auto
  from parseArgs_quiet [of rt tc s] p
  have q0: "fetches (trace s0) = fetches (trace s)" "questions (trace s0) = questions (trace s)" by simp_all
  from tryDispatch_quiet [of rt ts cs "tc_name tc" a s0] d
  have q1: "fetches (trace s1) = fetches (trace s0)" "questions (trace s1) = questions (trace s0)" by simp_all
  show ?thesis
    by (simp add: processToolCall_def Let_def acc p d q0 q1 split: sum.splits prod.splits)
qed

lemma dispatchLoop_quiet:
  "fetches (trace (snd (snd (dispatchLoop rt ts cs tcs acc)))) = fetches (trace (snd (snd acc))) \<and>
   questions (trace (snd (snd (dispatchLoop rt ts cs tcs acc)))) = questions (trace (snd (snd acc)))"
  by (induction tcs arbitrary: acc) (simp_all add: processToolCall_quiet)


lemma processToolCall_fst:
  "fst (processToolCall rt ts cs tc acc) =
     fst acc @ [toolMessage tc (dispatchOutcome rt ts cs tc (snd (snd acc)))]"
  by (cases acc)
     (simp add: processToolCall_def dispatchOutcome_def toolMessage_def Let_def
           split: prod.splits sum.splits)

lemma dispatchLoop_snoc:
  "dispatchLoop rt ts cs (xs @ [x]) acc = processToolCall rt ts cs x (dispatchLoop rt ts cs xs acc)"
  by (induction xs arbitrary: acc) simp_all

lemma dispatchLoop_messages:
  "fst (dispatchLoop rt ts cs tcs acc) =
     fst acc @ map (\<lambda>i. toolMessage (tcs ! i)
                          (dispatchOutcome rt ts cs (tcs ! i) (stateBefore rt ts cs tcs acc i)))
                   [0..<length tcs]"
proof (induction tcs rule: rev_induct)
  case Nil
  show ?case by simp
next
  case (snoc x xs)
  have "map (\<lambda>i. toolMessage ((xs @ [x]) ! i)
               (dispatchOutcome rt ts cs ((xs @ [x]) ! i) (stateBefore rt ts cs (xs @ [x]) acc i)))
          [0..<length xs]
        = map (\<lambda>i. toolMessage (xs ! i)
               (dispatchOutcome rt ts cs (xs ! i) (stateBefore rt ts cs xs acc i)))
          [0..<length xs]"
    by (rule map_cong) (simp_all add: nth_append stateBefore_def)
  then show ?case
    by (simp add: dispatchLoop_snoc processToolCall_fst snoc.IH stateBefore_def)
qed


section \<open>Unfolding the model on concrete inputs\<close>

lemmas sample_defs =
  sample_rt_def s0_def serverA_def serverB_def sample_tools_def sample_history_def
  sample_calls_def sample_reply_def searchTool_def brokenTool_def systemMessage_def

lemmas model_defs =
  emit_def formatMessages_def formatMessage_def formatTool_def toolData_def
  listTools_def listResources_def callTool_def tryDispatch_def parseArgs_def
  resultContent_def errorContent_def processToolCall_def
  provider_def apiKey_def llmModel_def apiUrl_def firstRequest_def followUpRequest_def
  readResponse_def modelReply_def firstContent_def firstToolCalls_def
  initialMessages_def initialResult_def followUp_def callLLM_try_def callLLM_def
  quote_def escape_char_def show_int_def digit_char_def digits.simps

section \<open>Formatting the history\<close>



section \<open>Connections without a client\<close>

text \<open>
  C10: on a connection with no client, \<open>listTools\<close> and \<open>listResources\<close> return \<open>null\<close>
  and leave the state as it is, while \<open>callTool\<close> throws; and when the server answers
  \<open>listTools\<close> or \<open>listResources\<close> with the JSON-RPC error -32601 the method returns
  \<open>null\<close> and writes nothing to the console.
\<close>

theorem unconnected_client:
  "(getClient conn = None \<longrightarrow>
      listTools rt conn s = (None, s) \<and>
      listResources rt conn s = (None, s) \<and>
      callTool rt conn toolName args s = (Inl (Error None ''MCP client is not connected''), s)) \<and>
   (\<forall>h error. getClient conn = Some h \<and> fst (client_listTools rt (world s) h) = Inl error
               \<and> err_code error = Some (- 32601) \<longrightarrow>
      fst (listTools rt conn s) = None \<and>
      trace (snd (listTools rt conn s)) = trace s @ [ClientListTools h]) \<and>
   (\<forall>h error. getClient conn = Some h \<and> fst (client_listResources rt (world s) h) = Inl error
               \<and> err_code error = Some (- 32601) \<longrightarrow>
      fst (listResources rt conn s) = None \<and>
      trace (snd (listResources rt conn s)) = trace s @ [ClientListResources h])"
  by (auto simp: listTools_def listResources_def callTool_def Let_def split: prod.splits)

theorem unconnected_client_witness:
  "getClient \<lparr> getServerName = ''serverA'', getClient = None \<rparr> = None \<and>
   listTools sample_rt \<lparr> getServerName = ''serverA'', getClient = None \<rparr> s0 = (None, s0) \<and>
   listResources sample_rt \<lparr> getServerName = ''serverA'', getClient = None \<rparr> s0 = (None, s0) \<and>
   callTool sample_rt \<lparr> getServerName = ''serverA'', getClient = None \<rparr> ''search'' (JObj []) s0
     = (Inl (Error None ''MCP client is not connected''), s0) \<and>
   getClient \<lparr> getServerName = ''serverC'', getClient = Some 3 \<rparr> = Some 3 \<and>
   fst (client_listTools sample_rt (world s0) 3) = Inl (Error (Some (- 32601)) ''Method not found'') \<and>
   listTools sample_rt \<lparr> getServerName = ''serverC'', getClient = Some 3 \<rparr> s0
     = (None, \<lparr> world = 0, trace = [ClientListTools 3] \<rparr>) \<and>
   listResources sample_rt \<lparr> getServerName = ''serverC'', getClient = Some 3 \<rparr> s0
     = (None, \<lparr> world = 0, trace = [ClientListResources 3] \<rparr>)"
  using unconnected_client
          [of "\<lparr> getServerName = ''serverA'', getClient = None \<rparr>" sample_rt s0 "''search''" "JObj []"]
        unconnected_client
          [of "\<lparr> getServerName = ''serverC'', getClient = Some 3 \<rparr>" sample_rt s0 "''search''" "JObj []"]
  by (simp add: model_defs sample_defs)



section \<open>The requests of a turn with tool calls\<close>

lemma modelReply_trace: "trace (snd (modelReply rt req s)) = trace s @ [Fetch req]"
  by (simp add: modelReply_def Let_def split: prod.splits sum.splits)

lemma followUp_trace:
  "trace (snd (followUp rt um res s)) = trace s @ [Fetch (followUpRequest rt um)]"
proof -
  obtain r s1 where m: "modelReply rt (followUpRequest rt um) s = (r, s1)"
    by (cases "modelReply rt (followUpRequest rt um) s") auto
  with modelReply_trace [of rt "followUpRequest rt um" s]
  have "trace s1 = trace s @ [Fetch (followUpRequest rt um)]" by simp
  then show ?thesis
    by (simp add: followUp_def m split: sum.splits)
qed

lemma callLLM_try_tool_round:
  assumes "\<not> falsy (apiKey rt)"
    and "modelReply rt (firstRequest rt history ts) s = (Inr jsonResponse, s1)"
    and "firstToolCalls jsonResponse = Some toolCalls"
    and "toolCalls \<noteq> []"
    and "dispatchLoop rt ts cs toolCalls (initialMessages history toolCalls, initialResult, s1)
           = (um, res, s2)"
  shows "callLLM_try rt history ts cs s = followUp rt um res s2"
proof -
  obtain c rest where "toolCalls = c # rest" using assms(4) by (cases toolCalls) auto
  with assms show ?thesis by (simp add: callLLM_try_def)
qed

lemma callLLM_fetches:
  "fetches (trace (snd (callLLM rt history ts cs s)))
     = fetches (trace (snd (callLLM_try rt history ts cs s)))"
  by (simp add: callLLM_def split: prod.splits sum.splits)

lemma callLLM_tool_round_fetches:
  assumes "\<not> falsy (apiKey rt)"
    and "modelReply rt (firstRequest rt history ts) s = (Inr jsonResponse, s1)"
    and "firstToolCalls jsonResponse = Some toolCalls"
    and "toolCalls \<noteq> []"
    and "dispatchLoop rt ts cs toolCalls (initialMessages history toolCalls, initialResult, s1)
           = (um, res, s2)"
  shows "fetches (trace (snd (callLLM rt history ts cs s)))
           = fetches (trace s) @ [firstRequest rt history ts, followUpRequest rt um]"
proof -
  from modelReply_trace [of rt "firstRequest rt history ts" s] assms(2)
  have "fetches (trace s1) = fetches (trace s) @ [firstRequest rt history ts]" by simp
  moreover from dispatchLoop_quiet [of rt ts cs toolCalls "(initialMessages history toolCalls, initialResult, s1)"] assms(5)
  have "fetches (trace s2) = fetches (trace s1)" by simp
  ultimately show ?thesis
    by (simp add: callLLM_fetches callLLM_try_tool_round [OF assms] followUp_trace)
qed



lemma sample_first_reply:
  "modelReply sample_rt (firstRequest sample_rt sample_history sample_tools) s0
     = (Inr (sample_reply 0),
        \<lparr> world = Suc 0, trace = [Fetch (firstRequest sample_rt sample_history sample_tools)] \<rparr>)"
  by (simp add: modelReply_def readResponse_def emit_def sample_rt_def s0_def)

lemma sample_batch:
  "fst (dispatchLoop sample_rt sample_tools [serverA, serverB] sample_calls (um, res, s))
     = um @ [ToolMsg ''call_1'' (''{'' @ [DQ] @ ''result'' @ [DQ] @ '':42}''),
             ToolMsg ''call_2'' (''{'' @ [DQ] @ ''error'' @ [DQ] @ '':'' @ [DQ]
                                  @ ''Tool lookup not found'' @ [DQ] @ ''}''),
             ToolMsg ''call_3'' (''{'' @ [DQ] @ ''error'' @ [DQ] @ '':'' @ [DQ] @ ''boom'' @ [DQ] @ ''}''),
             ToolMsg ''call_4'' (''{'' @ [DQ] @ ''result'' @ [DQ] @ '':42}'')]"
  by (simp add: model_defs sample_defs Let_def)



section \<open>Failures inside the dispatch loop\<close>

lemma tool_round:
  assumes "\<not> falsy (apiKey rt)"
    and "modelReply rt (firstRequest rt history ts) s = (Inr jsonResponse, s1)"
    and "firstToolCalls jsonResponse = Some toolCalls"
    and "toolCalls \<noteq> []"
  shows "\<exists>res s2.
           dispatchLoop rt ts cs toolCalls (initialMessages history toolCalls, initialResult, s1)
             = (initialMessages history toolCalls
                  @ map (\<lambda>i. toolMessage (toolCalls ! i)
                            (dispatchOutcome rt ts cs (toolCalls ! i)
                               (stateBefore rt ts cs toolCalls
                                  (initialMessages history toolCalls, initialResult, s1) i)))
                        [0..<length toolCalls],
                res, s2) \<and>
           callLLM_try rt history ts cs s
             = followUp rt
                 (initialMessages history toolCalls
                    @ map (\<lambda>i. toolMessage (toolCalls ! i)
                              (dispatchOutcome rt ts cs (toolCalls ! i)
                                 (stateBefore rt ts cs toolCalls
                                    (initialMessages history toolCalls, initialResult, s1) i)))
                          [0..<length toolCalls])
                 res s2"
proof -
  let ?acc = "(initialMessages history toolCalls, initialResult, s1)"
  obtain um res s2 where d: "dispatchLoop rt ts cs toolCalls ?acc = (um, res, s2)"
    by (cases "dispatchLoop rt ts cs toolCalls ?acc") auto
  from dispatchLoop_messages [of rt ts cs toolCalls ?acc] d
  have um: "um = initialMessages history toolCalls
                  @ map (\<lambda>i. toolMessage (toolCalls ! i)
                            (dispatchOutcome rt ts cs (toolCalls ! i)
                               (stateBefore rt ts cs toolCalls ?acc i)))
                        [0..<length toolCalls]"
    by simp
  from callLLM_try_tool_round [OF assms d] d show ?thesis
    unfolding um by blast
qed

lemma callLLM_fst: "fst (callLLM rt history ts cs s) = fst (callLLM_try rt history ts cs s)"
  by (simp add: callLLM_def split: prod.splits sum.splits)

lemma dispatchOutcome_unknown:
  "find (\<lambda>t. name t = tc_name tc) ts = None \<Longrightarrow>
   dispatchOutcome rt ts cs tc s = Inl (Error None (''Tool '' @ tc_name tc @ '' not found''))"
  by (simp add: dispatchOutcome_def tryDispatch_def)

lemma errorContent_text:
  "errorContent e = ''{'' @ [DQ] @ ''error'' @ [DQ] @ '':'' @ quote (err_message e) @ ''}''"
  by (simp add: errorContent_def quote_def escape_char_def)

text \<open>
  C3: a tool call whose name is not among the tools given to \<open>callLLM\<close> gets a tool
  message with its id and the serialized error \<open>{"error":"Tool <name> not found"}\<close>;
  the loop goes on to the end of the batch, and \<open>callLLM\<close> throws or returns exactly as
  the follow-up request does, so the failure of the dispatch reaches no caller.
\<close>

theorem unknown_tool_error_message:
  assumes "\<not> falsy (apiKey rt)"
    and "modelReply rt (firstRequest rt history mcpTools) s = (Inr jsonResponse, s1)"
    and "firstToolCalls jsonResponse = Some toolCalls"
    and "toolCalls \<noteq> []"
    and "i < length toolCalls"
    and "find (\<lambda>t. name t = tc_name (toolCalls ! i)) mcpTools = None"
  shows "\<exists>new res s2.
           dispatchLoop rt mcpTools mcpConnections toolCalls
               (initialMessages history toolCalls, initialResult, s1)
             = (initialMessages history toolCalls @ new, res, s2) \<and>
           length new = length toolCalls \<and>
           new ! i = ToolMsg (tc_id (toolCalls ! i))
                       (''{'' @ [DQ] @ ''error'' @ [DQ] @ '':''
                        @ quote (''Tool '' @ tc_name (toolCalls ! i) @ '' not found'') @ ''}'') \<and>
           fst (callLLM rt history mcpTools mcpConnections s)
             = fst (followUp rt (initialMessages history toolCalls @ new) res s2)"
proof -
  from tool_round [OF assms(1-4), of mcpConnections] obtain res s2 new
    where new: "new = map (\<lambda>i. toolMessage (toolCalls ! i)
                            (dispatchOutcome rt mcpTools mcpConnections (toolCalls ! i)
                               (stateBefore rt mcpTools mcpConnections toolCalls
                                  (initialMessages history toolCalls, initialResult, s1) i)))
                        [0..<length toolCalls]"
      and d: "dispatchLoop rt mcpTools mcpConnections toolCalls
               (initialMessages history toolCalls, initialResult, s1)
             = (initialMessages history toolCalls @ new, res, s2)"
      and c: "callLLM_try rt history mcpTools mcpConnections s
             = followUp rt (initialMessages history toolCalls @ new) res s2"
    by blast
  have "length new = length toolCalls" by (simp add: new)
  moreover have "new ! i = ToolMsg (tc_id (toolCalls ! i))
                       (''{'' @ [DQ] @ ''error'' @ [DQ] @ '':''
                        @ quote (''Tool '' @ tc_name (toolCalls ! i) @ '' not found'') @ ''}'')"
    using assms(5)
    by (simp add: new toolMessage_def dispatchOutcome_unknown [OF assms(6)] errorContent_text)
  ultimately show ?thesis using d c by (auto simp: callLLM_fst)
qed


theorem unknown_tool_error_message_witness:
  "\<not> falsy (apiKey sample_rt) \<and>
   modelReply sample_rt (firstRequest sample_rt sample_history sample_tools) s0
     = (Inr (sample_reply 0),
        \<lparr> world = Suc 0, trace = [Fetch (firstRequest sample_rt sample_history sample_tools)] \<rparr>) \<and>
   firstToolCalls (sample_reply 0) = Some sample_calls \<and>
   sample_calls \<noteq> [] \<and>
   1 < length sample_calls \<and>
   find (\<lambda>t. name t = tc_name (sample_calls ! 1)) sample_tools = None \<and>
   (\<exists>new res s2.
      dispatchLoop sample_rt sample_tools [serverA, serverB] sample_calls
          (initialMessages sample_history sample_calls, initialResult,
           \<lparr> world = Suc 0, trace = [Fetch (firstRequest sample_rt sample_history sample_tools)] \<rparr>)
        = (initialMessages sample_history sample_calls @ new, res, s2) \<and>
      length new = length sample_calls \<and>
      new ! 1 = ToolMsg (tc_id (sample_calls ! 1))
                  (''{'' @ [DQ] @ ''error'' @ [DQ] @ '':''
                   @ quote (''Tool '' @ tc_name (sample_calls ! 1) @ '' not found'') @ ''}'') \<and>
      fst (callLLM sample_rt sample_history sample_tools [serverA, serverB] s0)
        = fst (followUp sample_rt (initialMessages sample_history sample_calls @ new) res s2))"
proof -
  have h1: "\<not> falsy (apiKey sample_rt)"
    by (simp add: apiKey_def provider_def sample_rt_def)
  have h3: "firstToolCalls (sample_reply 0) = Some sample_calls"
    by (simp add: firstToolCalls_def sample_reply_def)
  have h4: "sample_calls \<noteq> []"
    by (simp add: sample_calls_def)
  have h5: "1 < length sample_calls"
    by (simp add: sample_calls_def)
  have h6: "find (\<lambda>t. name t = tc_name (sample_calls ! 1)) sample_tools = None"
    by (simp add: sample_calls_def sample_tools_def)
  show ?thesis
    using h1 sample_first_reply h3 h4 h5 h6
      unknown_tool_error_message [OF h1 sample_first_reply h3 h4 h5 h6, of "[serverA, serverB]"]
    by blast
qed

lemma dispatchOutcome_unparsable:
  "JSON_parse rt (tc_arguments tc) = None \<Longrightarrow>
   dispatchOutcome rt ts cs tc s
     = fst (tryDispatch rt ts cs (tc_name tc)
              (JObj [(''_error'', JStr ''Failed to parse arguments'')])
              (emit (ConsoleError ''Error parsing tool arguments:'') s))"
  by (simp add: dispatchOutcome_def parseArgs_def)

text \<open>
  C7, as the code has it: when the arguments of a call do not parse, the placeholder
  \<open>{"_error":"Failed to parse arguments"}\<close> takes their place and the call is
  dispatched with it. The call gets one tool message, holding the result of the tool on
  the placeholder when the dispatch succeeds and the serialized error when it fails; the
  loop goes on to the end of the batch, and \<open>callLLM\<close> throws or returns exactly as the
  follow-up request does.
\<close>

theorem unparsable_arguments_placeholder:
  assumes "\<not> falsy (apiKey rt)"
    and "modelReply rt (firstRequest rt history mcpTools) s = (Inr jsonResponse, s1)"
    and "firstToolCalls jsonResponse = Some toolCalls"
    and "toolCalls \<noteq> []"
    and "i < length toolCalls"
    and "JSON_parse rt (tc_arguments (toolCalls ! i)) = None"
  shows "\<exists>new res s2.
           dispatchLoop rt mcpTools mcpConnections toolCalls
               (initialMessages history toolCalls, initialResult, s1)
             = (initialMessages history toolCalls @ new, res, s2) \<and>
           length new = length toolCalls \<and>
           new ! i =
             ToolMsg (tc_id (toolCalls ! i))
               (case fst (tryDispatch rt mcpTools mcpConnections (tc_name (toolCalls ! i))
                            (JObj [(''_error'', JStr ''Failed to parse arguments'')])
                            (emit (ConsoleError ''Error parsing tool arguments:'')
                               (stateBefore rt mcpTools mcpConnections toolCalls
                                  (initialMessages history toolCalls, initialResult, s1) i))) of
                  Inr (sn, toolResult) \<Rightarrow> resultContent toolResult
                | Inl error \<Rightarrow> errorContent error) \<and>
           fst (callLLM rt history mcpTools mcpConnections s)
             = fst (followUp rt (initialMessages history toolCalls @ new) res s2)"
proof -
  from tool_round [OF assms(1-4), of mcpConnections] obtain res s2 new
    where new: "new = map (\<lambda>i. toolMessage (toolCalls ! i)
                            (dispatchOutcome rt mcpTools mcpConnections (toolCalls ! i)
                               (stateBefore rt mcpTools mcpConnections toolCalls
                                  (initialMessages history toolCalls, initialResult, s1) i)))
                        [0..<length toolCalls]"
      and d: "dispatchLoop rt mcpTools mcpConnections toolCalls
               (initialMessages history toolCalls, initialResult, s1)
             = (initialMessages history toolCalls @ new, res, s2)"
      and c: "callLLM_try rt history mcpTools mcpConnections s
             = followUp rt (initialMessages history toolCalls @ new) res s2"
    by blast
  have "length new = length toolCalls" by (simp add: new)
  moreover have "new ! i =
             ToolMsg (tc_id (toolCalls ! i))
               (case fst (tryDispatch rt mcpTools mcpConnections (tc_name (toolCalls ! i))
                            (JObj [(''_error'', JStr ''Failed to parse arguments'')])
                            (emit (ConsoleError ''Error parsing tool arguments:'')
                               (stateBefore rt mcpTools mcpConnections toolCalls
                                  (initialMessages history toolCalls, initialResult, s1) i))) of
                  Inr (sn, toolResult) \<Rightarrow> resultContent toolResult
                | Inl error \<Rightarrow> errorContent error)"
    using assms(5)
    by (simp add: new toolMessage_def dispatchOutcome_unparsable [OF assms(6)])
  ultimately show ?thesis using d c by (auto simp: callLLM_fst)
qed

theorem unparsable_arguments_placeholder_witness:
  "\<not> falsy (apiKey sample_rt) \<and>
   modelReply sample_rt (firstRequest sample_rt sample_history sample_tools) s0
     = (Inr (sample_reply 0),
        \<lparr> world = Suc 0, trace = [Fetch (firstRequest sample_rt sample_history sample_tools)] \<rparr>) \<and>
   firstToolCalls (sample_reply 0) = Some sample_calls \<and>
   sample_calls \<noteq> [] \<and>
   3 < length sample_calls \<and>
   JSON_parse sample_rt (tc_arguments (sample_calls ! 3)) = None \<and>
   (\<exists>new res s2.
      dispatchLoop sample_rt sample_tools [serverA, serverB] sample_calls
          (initialMessages sample_history sample_calls, initialResult,
           \<lparr> world = Suc 0, trace = [Fetch (firstRequest sample_rt sample_history sample_tools)] \<rparr>)
        = (initialMessages sample_history sample_calls @ new, res, s2) \<and>
      length new = length sample_calls \<and>
      new ! 3 =
        ToolMsg (tc_id (sample_calls ! 3))
          (case fst (tryDispatch sample_rt sample_tools [serverA, serverB] (tc_name (sample_calls ! 3))
                       (JObj [(''_error'', JStr ''Failed to parse arguments'')])
                       (emit (ConsoleError ''Error parsing tool arguments:'')
                          (stateBefore sample_rt sample_tools [serverA, serverB] sample_calls
                             (initialMessages sample_history sample_calls, initialResult,
                              \<lparr> world = Suc 0,
                                trace = [Fetch (firstRequest sample_rt sample_history sample_tools)] \<rparr>)
                             3))) of
             Inr (sn, toolResult) \<Rightarrow> resultContent toolResult
           | Inl error \<Rightarrow> errorContent error) \<and>
      fst (callLLM sample_rt sample_history sample_tools [serverA, serverB] s0)
        = fst (followUp sample_rt (initialMessages sample_history sample_calls @ new) res s2))"
proof -
  have h1: "\<not> falsy (apiKey sample_rt)"
    by (simp add: apiKey_def provider_def sample_rt_def)
  have h3: "firstToolCalls (sample_reply 0) = Some sample_calls"
    by (simp add: firstToolCalls_def sample_reply_def)
  have h4: "sample_calls \<noteq> []"
    by (simp add: sample_calls_def)
  have h5: "3 < length sample_calls"
    by (simp add: sample_calls_def)
  have h6: "JSON_parse sample_rt (tc_arguments (sample_calls ! 3)) = None"
    by (simp add: sample_calls_def sample_rt_def)
  show ?thesis
    using h1 sample_first_reply h3 h4 h5 h6
      unparsable_arguments_placeholder [OF h1 sample_first_reply h3 h4 h5 h6, of "[serverA, serverB]"]
    by blast
qed

text \<open>
  In the sample batch the arguments of the fourth call do not parse; the tool is called
  with the placeholder, and the tool message of the call holds the tool's result, not an
  error.
\<close>

theorem unparsable_arguments_counterexample:
  "JSON_parse sample_rt (tc_arguments (sample_calls ! 3)) = None \<and>
   fst (dispatchLoop sample_rt sample_tools [serverA, serverB] sample_calls ([], [], s0)) ! 3
     = ToolMsg ''call_4'' (''{'' @ [DQ] @ ''result'' @ [DQ] @ '':42}'') \<and>
   toolCallsMade (trace (snd (snd
      (dispatchLoop sample_rt sample_tools [serverA, serverB] sample_calls ([], [], s0)))))
     = [(1, ''search'', JObj []),
        (1, ''broken'', JObj []),
        (1, ''search'', JObj [(''_error'', JStr ''Failed to parse arguments'')])]"
  by (simp add: model_defs sample_defs Let_def)


section \<open>The follow-up request\<close>

lemma toolMessage_role: "sent_role (toolMessage tc r) = ''tool''"
  by (simp add: toolMessage_def)

text \<open>
  C5, as the code has it: when the model answers with a non-empty list of tool calls,
  the assistant message that carries them is put right after the formatted history
  before the loop starts, the k tool messages follow it, and the follow-up request is
  sent with these messages.
\<close>

theorem assistant_message_precedes_tool_results:
  assumes "\<not> falsy (apiKey rt)"
    and "modelReply rt (firstRequest rt history mcpTools) s = (Inr jsonResponse, s1)"
    and "firstToolCalls jsonResponse = Some toolCalls"
    and "toolCalls \<noteq> []"
  shows "\<exists>new.
           fetches (trace (snd (callLLM rt history mcpTools mcpConnections s)))
             = fetches (trace s)
               @ [firstRequest rt history mcpTools,
                  followUpRequest rt
                    (formatMessages history @ ChatMsg ''assistant'' None (Some toolCalls) # new)] \<and>
           length new = length toolCalls \<and>
           (\<forall>m \<in> set new. sent_role m = ''tool'')"
proof -
  let ?acc = "(initialMessages history toolCalls, initialResult, s1)"
  let ?new = "map (\<lambda>i. toolMessage (toolCalls ! i)
                     (dispatchOutcome rt mcpTools mcpConnections (toolCalls ! i)
                        (stateBefore rt mcpTools mcpConnections toolCalls ?acc i)))
                [0..<length toolCalls]"
  obtain um res s2 where d: "dispatchLoop rt mcpTools mcpConnections toolCalls ?acc = (um, res, s2)"
    by (cases "dispatchLoop rt mcpTools mcpConnections toolCalls ?acc") auto
  from dispatchLoop_messages [of rt mcpTools mcpConnections toolCalls ?acc] d
  have um: "um = formatMessages history @ ChatMsg ''assistant'' None (Some toolCalls) # ?new"
    by (simp add: initialMessages_def)
  have "fetches (trace (snd (callLLM rt history mcpTools mcpConnections s)))
          = fetches (trace s) @ [firstRequest rt history mcpTools, followUpRequest rt um]"
    by (rule callLLM_tool_round_fetches [OF assms d])
  moreover have "length ?new = length toolCalls" by simp
  moreover have "\<forall>m \<in> set ?new. sent_role m = ''tool''"
    by (auto simp: toolMessage_role)
  ultimately show ?thesis unfolding um by blast
qed

theorem assistant_message_precedes_tool_results_witness:
  "\<not> falsy (apiKey sample_rt) \<and>
   modelReply sample_rt (firstRequest sample_rt sample_history sample_tools) s0
     = (Inr (sample_reply 0),
        \<lparr> world = Suc 0, trace = [Fetch (firstRequest sample_rt sample_history sample_tools)] \<rparr>) \<and>
   firstToolCalls (sample_reply 0) = Some sample_calls \<and>
   sample_calls \<noteq> [] \<and>
   (\<exists>new.
      fetches (trace (snd (callLLM sample_rt sample_history sample_tools [serverA, serverB] s0)))
        = fetches (trace s0)
          @ [firstRequest sample_rt sample_history sample_tools,
             followUpRequest sample_rt
               (formatMessages sample_history @ ChatMsg ''assistant'' None (Some sample_calls) # new)] \<and>
      length new = length sample_calls \<and>
      (\<forall>m \<in> set new. sent_role m = ''tool''))"
proof -
  have h1: "\<not> falsy (apiKey sample_rt)"
    by (simp add: apiKey_def provider_def sample_rt_def)
  have h3: "firstToolCalls (sample_reply 0) = Some sample_calls"
    by (simp add: firstToolCalls_def sample_reply_def)
  have h4: "sample_calls \<noteq> []"
    by (simp add: sample_calls_def)
  show ?thesis
    using h1 sample_first_reply h3 h4
      assistant_message_precedes_tool_results [OF h1 sample_first_reply h3 h4, of "[serverA, serverB]"]
    by blast
qed

lemma sample_fetches:
  "fetches (trace (snd (callLLM sample_rt sample_history sample_tools [serverA, serverB] s0)))
     = [firstRequest sample_rt sample_history sample_tools,
        followUpRequest sample_rt
          (formatMessages sample_history @ ChatMsg ''assistant'' None (Some sample_calls)
             # sample_messages)]"
proof -
  have h1: "\<not> falsy (apiKey sample_rt)"
    by (simp add: apiKey_def provider_def sample_rt_def)
  have h3: "firstToolCalls (sample_reply 0) = Some sample_calls"
    by (simp add: firstToolCalls_def sample_reply_def)
  have h4: "sample_calls \<noteq> []"
    by (simp add: sample_calls_def)
  obtain um res s2 where d:
    "dispatchLoop sample_rt sample_tools [serverA, serverB] sample_calls
       (initialMessages sample_history sample_calls, initialResult,
        \<lparr> world = Suc 0, trace = [Fetch (firstRequest sample_rt sample_history sample_tools)] \<rparr>)
     = (um, res, s2)"
    using prod_cases3 by blast
  from sample_batch [of "initialMessages sample_history sample_calls" initialResult
          "\<lparr> world = Suc 0, trace = [Fetch (firstRequest sample_rt sample_history sample_tools)] \<rparr>"] d
  have "um = formatMessages sample_history @ ChatMsg ''assistant'' None (Some sample_calls)
               # sample_messages"
    by (simp add: initialMessages_def sample_messages_def)
  with callLLM_tool_round_fetches [OF h1 sample_first_reply h3 h4 d]
  show ?thesis by (simp add: s0_def)
qed

text \<open>
  In the sample turn the assistant message of the follow-up request stands before the
  four tool messages, not after them.
\<close>

theorem assistant_message_appended_last_counterexample:
  "map sent_role
     (req_messages
        (fetches (trace (snd (callLLM sample_rt sample_history sample_tools [serverA, serverB] s0)))
           ! 1))
     = [''system'', ''user'', ''assistant'', ''tool'', ''tool'', ''tool'', ''tool''] \<and>
   req_messages
     (fetches (trace (snd (callLLM sample_rt sample_history sample_tools [serverA, serverB] s0)))
        ! 1)
     \<noteq> formatMessages sample_history @ sample_messages
         @ [ChatMsg ''assistant'' None (Some sample_calls)]"
  unfolding sample_fetches
  by (simp add: followUpRequest_def formatMessages_def formatMessage_def
        sample_history_def sample_messages_def systemMessage_def)


text \<open>
  C4, as the code has it: after the batch has been dispatched exactly one follow-up
  request is sent, with the updated messages and no tools; when it succeeds, the answer
  of the turn is the text \<open>Tools used:\<close>, the summary of the tool calls and the content
  of the follow-up reply (empty when it is \<open>null\<close>). Nothing happens after the follow-up
  request, whatever tool calls its reply holds.
\<close>

theorem single_level_tool_resolution:
  assumes "\<not> falsy (apiKey rt)"
    and "modelReply rt (firstRequest rt history mcpTools) s = (Inr jsonResponse, s1)"
    and "firstToolCalls jsonResponse = Some toolCalls"
    and "toolCalls \<noteq> []"
    and "dispatchLoop rt mcpTools mcpConnections toolCalls
           (initialMessages history toolCalls, initialResult, s1) = (updatedMessages, result, s2)"
  shows "fetches (trace (snd (callLLM rt history mcpTools mcpConnections s)))
           = fetches (trace s)
             @ [firstRequest rt history mcpTools, followUpRequest rt updatedMessages] \<and>
         req_messages (followUpRequest rt updatedMessages) = updatedMessages \<and>
         req_tools (followUpRequest rt updatedMessages) = None \<and>
         (\<forall>final s3 c more.
            modelReply rt (followUpRequest rt updatedMessages) s2 = (Inr final, s3)
            \<and> choices final = c # more \<longrightarrow>
            callLLM rt history mcpTools mcpConnections s
              = (Inr (''Tools used:'' @ [LF] @ result @ [LF]
                      @ (case msg_content c of None \<Rightarrow> [] | Some t \<Rightarrow> t)), s3) \<and>
            trace s3 = trace s2 @ [Fetch (followUpRequest rt updatedMessages)])"
proof -
  have t: "callLLM_try rt history mcpTools mcpConnections s = followUp rt updatedMessages result s2"
    by (rule callLLM_try_tool_round [OF assms])
  have "callLLM rt history mcpTools mcpConnections s
          = (Inr (''Tools used:'' @ [LF] @ result @ [LF]
                  @ (case msg_content c of None \<Rightarrow> [] | Some t \<Rightarrow> t)), s3)
        \<and> trace s3 = trace s2 @ [Fetch (followUpRequest rt updatedMessages)]"
    if m: "modelReply rt (followUpRequest rt updatedMessages) s2 = (Inr final, s3)"
      and c: "choices final = c # more" for final s3 c more
  proof -
    have "followUp rt updatedMessages result s2
            = (Inr (''Tools used:'' @ [LF] @ result @ [LF]
                    @ (case msg_content c of None \<Rightarrow> [] | Some t \<Rightarrow> t)), s3)"
      by (simp add: followUp_def m firstContent_def c)
    moreover from modelReply_trace [of rt "followUpRequest rt updatedMessages" s2] m
    have "trace s3 = trace s2 @ [Fetch (followUpRequest rt updatedMessages)]" by simp
    ultimately show ?thesis by (simp add: callLLM_def t)
  qed
  moreover have "fetches (trace (snd (callLLM rt history mcpTools mcpConnections s)))
           = fetches (trace s)
             @ [firstRequest rt history mcpTools, followUpRequest rt updatedMessages]"
    by (rule callLLM_tool_round_fetches [OF assms])
  moreover have "req_messages (followUpRequest rt updatedMessages) = updatedMessages"
    "req_tools (followUpRequest rt updatedMessages) = None"
    by (simp_all add: followUpRequest_def)
  ultimately show ?thesis by blast
qed

lemma sample_dispatch:
  "dispatchLoop sample_rt sample_tools [serverA, serverB] sample_calls
     (initialMessages sample_history sample_calls, initialResult,
      \<lparr> world = Suc 0, trace = [Fetch (firstRequest sample_rt sample_history sample_tools)] \<rparr>)
   = (initialMessages sample_history sample_calls @ sample_messages,
      sample_result,
      \<lparr> world = Suc 0,
        trace = Fetch (firstRequest sample_rt sample_history sample_tools) # sample_events \<rparr>)"
  by (simp add: model_defs sample_defs sample_messages_def sample_result_def sample_events_def
        Let_def)

lemma sample_final_reply:
  "modelReply sample_rt (followUpRequest sample_rt um) \<lparr> world = Suc 0, trace = es \<rparr>
     = (Inr (sample_reply 1),
        \<lparr> world = Suc (Suc 0), trace = es @ [Fetch (followUpRequest sample_rt um)] \<rparr>)"
  by (simp add: modelReply_def readResponse_def emit_def sample_rt_def)

theorem single_level_tool_resolution_witness:
  "\<not> falsy (apiKey sample_rt) \<and>
   modelReply sample_rt (firstRequest sample_rt sample_history sample_tools) s0
     = (Inr (sample_reply 0),
        \<lparr> world = Suc 0, trace = [Fetch (firstRequest sample_rt sample_history sample_tools)] \<rparr>) \<and>
   firstToolCalls (sample_reply 0) = Some sample_calls \<and>
   sample_calls \<noteq> [] \<and>
   fetches (trace (snd (callLLM sample_rt sample_history sample_tools [serverA, serverB] s0)))
     = fetches (trace s0)
       @ [firstRequest sample_rt sample_history sample_tools,
          followUpRequest sample_rt (initialMessages sample_history sample_calls @ sample_messages)] \<and>
   req_tools (followUpRequest sample_rt (initialMessages sample_history sample_calls @ sample_messages))
     = None \<and>
   choices (sample_reply 1)
     = [Choice (Some ''Hello'') (Some [ToolCall ''call_9'' ''function'' ''search'' ''{}''])] \<and>
   fst (callLLM sample_rt sample_history sample_tools [serverA, serverB] s0)
     = Inr (''Tools used:'' @ [LF] @ sample_result @ [LF] @ ''Hello'') \<and>
   trace (snd (callLLM sample_rt sample_history sample_tools [serverA, serverB] s0))
     = Fetch (firstRequest sample_rt sample_history sample_tools) # sample_events
       @ [Fetch (followUpRequest sample_rt
                   (initialMessages sample_history sample_calls @ sample_messages))]"
proof -
  have h1: "\<not> falsy (apiKey sample_rt)"
    by (simp add: apiKey_def provider_def sample_rt_def)
  have h3: "firstToolCalls (sample_reply 0) = Some sample_calls"
    by (simp add: firstToolCalls_def sample_reply_def)
  have h4: "sample_calls \<noteq> []"
    by (simp add: sample_calls_def)
  have c: "choices (sample_reply 1)
     = [Choice (Some ''Hello'') (Some [ToolCall ''call_9'' ''function'' ''search'' ''{}''])]"
    by (simp add: sample_reply_def)
  show ?thesis
    using h1 sample_first_reply h3 h4 c
      single_level_tool_resolution [OF h1 sample_first_reply h3 h4 sample_dispatch]
      sample_final_reply
    by (simp add: sample_events_def s0_def)
qed

lemma sample_turn:
  "callLLM sample_rt sample_history sample_tools [serverA, serverB] s0
     = (Inr sample_answer,
        \<lparr> world = Suc (Suc 0),
          trace = Fetch (firstRequest sample_rt sample_history sample_tools) # sample_events
                  @ [Fetch (followUpRequest sample_rt
                              (initialMessages sample_history sample_calls @ sample_messages))] \<rparr>)"
proof -
  have h1: "\<not> falsy (apiKey sample_rt)"
    by (simp add: apiKey_def provider_def sample_rt_def)
  have h3: "firstToolCalls (sample_reply 0) = Some sample_calls"
    by (simp add: firstToolCalls_def sample_reply_def)
  have h4: "sample_calls \<noteq> []"
    by (simp add: sample_calls_def)
  have "firstContent (sample_reply 1) = Inr ''Hello''"
    by (simp add: firstContent_def sample_reply_def)
  then show ?thesis
    by (simp add: callLLM_def callLLM_try_tool_round [OF h1 sample_first_reply h3 h4 sample_dispatch]
          followUp_def sample_final_reply sample_answer_def)
qed

text \<open>
  In the sample turn the follow-up reply has the content \<open>Hello\<close>; the answer of the turn
  is a longer text that ends with it.
\<close>

theorem followup_content_is_answer_counterexample:
  "fst (modelReply sample_rt
          (followUpRequest sample_rt (initialMessages sample_history sample_calls @ sample_messages))
          \<lparr> world = Suc 0,
            trace = Fetch (firstRequest sample_rt sample_history sample_tools) # sample_events \<rparr>)
     = Inr \<lparr> choices = [Choice (Some ''Hello'')
                           (Some [ToolCall ''call_9'' ''function'' ''search'' ''{}''])] \<rparr> \<and>
   fst (callLLM sample_rt sample_history sample_tools [serverA, serverB] s0) = Inr sample_answer \<and>
   sample_answer \<noteq> ''Hello''"
  by (simp add: sample_final_reply sample_turn sample_reply_def sample_answer_def)


section \<open>The tools of all servers\<close>

lemma find_append_case:
  "find P (xs @ ys) = (case find P xs of None \<Rightarrow> find P ys | Some x \<Rightarrow> Some x)"
  by (induction xs) simp_all

lemma find_tagged:
  "find (\<lambda>t. name t = n) (map (\<lambda>tool. tool\<lparr>serverName := Some sn\<rparr>) ts)
     = map_option (\<lambda>tool. tool\<lparr>serverName := Some sn\<rparr>) (find (\<lambda>t. name t = n) ts)"
  by (induction ts) simp_all

lemma find_name_None: "find (\<lambda>t. name t = n) ts = None \<longleftrightarrow> n \<notin> name ` set ts"
  by (auto simp: find_None_iff)

lemma find_tagTools:
  "owners listings n = sn # others \<Longrightarrow>
   \<exists>tool. find (\<lambda>t. name t = n) (tagTools listings) = Some tool \<and> serverName tool = Some sn"
proof (induction listings)
  case Nil
  then show ?case by (simp add: owners_def)
next
  case (Cons l listings)
  obtain sn' ts where l: "l = (sn', ts)" by (cases l) auto
  show ?case
  proof (cases "n \<in> name ` set ts")
    case True
    with Cons.prems l have "sn' = sn" by (simp add: owners_def)
    moreover from True obtain tool where "find (\<lambda>t. name t = n) ts = Some tool"
      using find_name_None [of n ts] by (cases "find (\<lambda>t. name t = n) ts") auto
    ultimately show ?thesis
      by (simp add: tagTools_def l find_append_case find_tagged)
  next
    case False
    with Cons.prems l have "owners listings n = sn # others" by (simp add: owners_def)
    from Cons.IH [OF this] False show ?thesis
      using find_name_None [of n ts]
      by (auto simp: tagTools_def l find_append_case find_tagged)
  qed
qed

lemma length_tagTools: "length (tagTools listings) = (\<Sum>(sn, ts) \<leftarrow> listings. length ts)"
  by (induction listings) (auto simp: tagTools_def)

lemma fold_set_owner:
  "fold (\<lambda>tool m. m(name tool \<mapsto> sn)) ts m n = (if n \<in> name ` set ts then Some sn else m n)"
  by (induction ts arbitrary: m) auto

lemma fetchAllTools_fst:
  "fst (fetchAllTools rt connections (allTools, toolToServerMap, s))
     = allTools @ tagTools (toolListings rt connections s)"
proof (induction connections arbitrary: allTools toolToServerMap s)
  case Nil
  show ?case by (simp add: tagTools_def)
next
  case (Cons c connections)
  then show ?case
    by (simp add: tagTools_def Let_def split: prod.splits option.splits list.splits)
qed

lemma fetchAllTools_map:
  "fst (snd (fetchAllTools rt connections (allTools, toolToServerMap, s)))
     = fold (\<lambda>(sn, ts). fold (\<lambda>tool m. m(name tool \<mapsto> sn)) ts)
         (toolListings rt connections s) toolToServerMap"
proof (induction connections arbitrary: allTools toolToServerMap s)
  case Nil
  show ?case by simp
next
  case (Cons c connections)
  then show ?case
    by (simp add: Let_def del: fun_upd_apply split: prod.splits option.splits list.splits)
qed

lemma fold_listings_owner:
  "fold (\<lambda>(sn, ts). fold (\<lambda>tool m. m(name tool \<mapsto> sn)) ts) listings m n
     = (if owners listings n = [] then m n else Some (last (owners listings n)))"
proof (induction listings rule: rev_induct)
  case Nil
  show ?case by (simp add: owners_def)
next
  case (snoc l listings)
  obtain sn ts where l: "l = (sn, ts)" by (cases l) auto
  from snoc show ?case
    by (simp add: l owners_def fold_set_owner del: fun_upd_apply)
qed

lemma toolListings_names: "map fst (toolListings rt connections s) = map getServerName connections"
proof (induction connections arbitrary: s)
  case Nil
  show ?case by simp
next
  case (Cons c connections)
  then show ?case
    by (simp add: Let_def split: prod.splits option.splits list.splits)
qed

lemma owners_subset: "set (owners listings n) \<subseteq> set (map fst listings)"
  by (auto simp: owners_def)


lemma names_tagTools:
  "map name (tagTools listings) = concat (map (\<lambda>(sn, ts). map name ts) listings)"
  by (induction listings) (auto simp: tagTools_def)

lemma owners_nonempty_iff: "owners listings n \<noteq> [] \<longleftrightarrow> n \<in> set (map name (tagTools listings))"
proof -
  have "owners listings n \<noteq> [] \<longleftrightarrow> (\<exists>x \<in> set listings. n \<in> name ` set (snd x))"
    by (induction listings) (auto simp: owners_def)
  moreover have "set (map name (tagTools listings)) = (\<Union>x \<in> set listings. name ` set (snd x))"
    unfolding names_tagTools by (induction listings) auto
  ultimately show ?thesis by simp
qed

lemma dom_lastOwner: "dom (lastOwner listings) = set (map name (tagTools listings))"
  using owners_nonempty_iff [of listings]
  by (auto simp: lastOwner_def dom_def)

lemma fetchAllTools_lastOwner:
  "fst (snd (fetchAllTools rt connections ([], Map.empty, s)))
     = lastOwner (toolListings rt connections s)"
  by (rule ext) (simp add: fetchAllTools_map fold_listings_owner lastOwner_def)

lemma tryDispatch_routed:
  assumes "find (\<lambda>t. name t = n) ts = Some tool" and "serverName tool = Some sn" and "sn \<noteq> []"
    and "find (\<lambda>c. getServerName c = sn) cs = Some connection"
  shows "tryDispatch rt ts cs n args st =
           (case callTool rt connection n args
                   (emit (ConsoleLog (''Calling tool '' @ n @ '' on server '' @ sn)) st) of
              (r, s2) \<Rightarrow> (case r of Inl e \<Rightarrow> (Inl e, s2) | Inr v \<Rightarrow> (Inr (sn, v), s2)))"
  using assms by (simp add: tryDispatch_def)

lemma first_owner_index:
  "owners listings n = sn # others \<Longrightarrow>
   \<exists>i < length listings.
      fst (listings ! i) = sn \<and> n \<in> name ` set (snd (listings ! i)) \<and>
      (\<forall>j < i. n \<notin> name ` set (snd (listings ! j)))"
proof (induction listings)
  case Nil
  then show ?case by (simp add: owners_def)
next
  case (Cons l listings)
  show ?case
  proof (cases "n \<in> name ` set (snd l)")
    case True
    with Cons.prems have "fst l = sn" by (cases l) (simp add: owners_def)
    with True have "fst ((l # listings) ! 0) = sn \<and> n \<in> name ` set (snd ((l # listings) ! 0)) \<and>
      (\<forall>j < 0. n \<notin> name ` set (snd ((l # listings) ! j)))" by simp
    then show ?thesis by blast
  next
    case False
    with Cons.prems have "owners listings n = sn # others" by (cases l) (simp add: owners_def)
    from Cons.IH [OF this] obtain i where i: "i < length listings" "fst (listings ! i) = sn"
      "n \<in> name ` set (snd (listings ! i))" "\<forall>j < i. n \<notin> name ` set (snd (listings ! j))"
      by blast
    have "\<forall>j < Suc i. n \<notin> name ` set (snd ((l # listings) ! j))"
    proof (intro allI impI)
      fix j assume "j < Suc i"
      then show "n \<notin> name ` set (snd ((l # listings) ! j))"
        using False i(4) by (cases j) simp_all
    qed
    with i have "Suc i < length (l # listings) \<and> fst ((l # listings) ! Suc i) = sn \<and>
      n \<in> name ` set (snd ((l # listings) ! Suc i)) \<and>
      (\<forall>j < Suc i. n \<notin> name ` set (snd ((l # listings) ! j)))" by simp
    then show ?thesis by blast
  qed
qed

lemma find_distinct_nth:
  "distinct (map f xs) \<Longrightarrow> i < length xs \<Longrightarrow> find (\<lambda>c. f c = f (xs ! i)) xs = Some (xs ! i)"
proof (induction xs arbitrary: i)
  case Nil
  then show ?case by simp
next
  case (Cons x xs)
  show ?case
  proof (cases i)
    case 0
    then show ?thesis by simp
  next
    case (Suc k)
    with Cons.prems have k: "k < length xs" by simp
    then have "f (xs ! k) \<in> f ` set xs" by simp
    with Cons.prems have "f x \<noteq> f (xs ! k)" by auto
    with Cons.IH [of k] Cons.prems k Suc show ?thesis by simp
  qed
qed

lemma length_toolListings: "length (toolListings rt connections s) = length connections"
  using toolListings_names [of rt connections s] by (metis length_map)

lemma tryDispatch_unnamed:
  assumes "find (\<lambda>t. name t = n) ts = Some tool" and "serverName tool = Some []"
  shows "tryDispatch rt ts cs n args st
           = (Inl (Error None (''No server name found for tool '' @ n)), st)"
  using assms by (simp add: tryDispatch_def)

text \<open>
  C2, as the code has it: the combined list of tools has one entry for each tool that a
  connection listed, so the sum of the T_i entries, also when names collide; when the
  names are all different the map from tool name to server has as many entries. The map
  gives a name to the last connection that listed it, but a dispatch does not read the
  map: it takes the first tool of the combined list with the requested name, which
  bears the server name of the first connection that listed the name. When that server
  name is empty the dispatch throws \<open>No server name found for tool <name>\<close> and calls no
  tool. Otherwise the call goes to the first connection with that server name, which,
  server names being distinct, is the first connection that listed the name.
\<close>

theorem first_listing_owns_dispatch:
  assumes "fetchAllTools rt connections ([], Map.empty, s) = (allTools, toolToServerMap, s')"
  shows "length allTools = (\<Sum>(sn, ts) \<leftarrow> toolListings rt connections s. length ts) \<and>
         (distinct (map name allTools) \<longrightarrow> card (dom toolToServerMap) = length allTools) \<and>
         toolToServerMap = lastOwner (toolListings rt connections s) \<and>
         (\<forall>n sn others.
            owners (toolListings rt connections s) n = sn # others \<longrightarrow>
            (\<exists>tool. find (\<lambda>t. name t = n) allTools = Some tool \<and> serverName tool = Some sn) \<and>
            (sn = [] \<longrightarrow>
             (\<forall>args st.
                tryDispatch rt allTools connections n args st
                  = (Inl (Error None (''No server name found for tool '' @ n)), st))) \<and>
            (sn \<noteq> [] \<longrightarrow>
             (\<exists>connection.
                find (\<lambda>c. getServerName c = sn) connections = Some connection \<and>
                (distinct (map getServerName connections) \<longrightarrow>
                 (\<exists>i < length connections.
                    connection = connections ! i \<and>
                    n \<in> name ` set (snd (toolListings rt connections s ! i)) \<and>
                    (\<forall>j < i. n \<notin> name ` set (snd (toolListings rt connections s ! j))))) \<and>
                (\<forall>args st.
                   tryDispatch rt allTools connections n args st =
                     (case callTool rt connection n args
                             (emit (ConsoleLog (''Calling tool '' @ n @ '' on server '' @ sn)) st) of
                        (r, s2) \<Rightarrow>
                          (case r of Inl e \<Rightarrow> (Inl e, s2) | Inr v \<Rightarrow> (Inr (sn, v), s2)))))))"
proof -
  let ?L = "toolListings rt connections s"
  from fetchAllTools_fst [of rt connections "[]" Map.empty s] assms
  have a: "allTools = tagTools ?L" by simp
  from fetchAllTools_lastOwner [of rt connections s] assms
  have m: "toolToServerMap = lastOwner ?L" by simp
  have len: "length allTools = (\<Sum>(sn, ts) \<leftarrow> ?L. length ts)"
    by (simp add: a length_tagTools)
  have card: "card (dom toolToServerMap) = length allTools" if "distinct (map name allTools)"
  proof -
    have "dom toolToServerMap = set (map name allTools)"
      unfolding m a by (rule dom_lastOwner)
    with distinct_card [OF that] show ?thesis by simp
  qed
  have route:
    "(\<exists>tool. find (\<lambda>t. name t = n) allTools = Some tool \<and> serverName tool = Some sn) \<and>
     (sn = [] \<longrightarrow>
       (\<forall>args st.
          tryDispatch rt allTools connections n args st
            = (Inl (Error None (''No server name found for tool '' @ n)), st))) \<and>
     (sn \<noteq> [] \<longrightarrow>
       (\<exists>connection.
          find (\<lambda>c. getServerName c = sn) connections = Some connection \<and>
          (distinct (map getServerName connections) \<longrightarrow>
           (\<exists>i < length connections.
              connection = connections ! i \<and>
              n \<in> name ` set (snd (?L ! i)) \<and>
              (\<forall>j < i. n \<notin> name ` set (snd (?L ! j))))) \<and>
          (\<forall>args st.
             tryDispatch rt allTools connections n args st =
               (case callTool rt connection n args
                       (emit (ConsoleLog (''Calling tool '' @ n @ '' on server '' @ sn)) st) of
                  (r, s2) \<Rightarrow>
                    (case r of Inl e \<Rightarrow> (Inl e, s2) | Inr v \<Rightarrow> (Inr (sn, v), s2))))))"
    if o: "owners ?L n = sn # others" for n sn others
  proof -
    from find_tagTools [OF o] obtain tool
      where t: "find (\<lambda>t. name t = n) allTools = Some tool" "serverName tool = Some sn"
      unfolding a by blast
    have unnamed: "tryDispatch rt allTools connections n args st
            = (Inl (Error None (''No server name found for tool '' @ n)), st)"
      if "sn = []" for args st
      using tryDispatch_unnamed [OF t(1), of rt connections args st] t(2) that by simp
    have "sn \<in> set (map getServerName connections)"
      using owners_subset [of ?L n] o by (simp add: toolListings_names)
    then obtain connection where c: "find (\<lambda>c. getServerName c = sn) connections = Some connection"
      by (cases "find (\<lambda>c. getServerName c = sn) connections") (auto simp: find_None_iff)
    have idx: "\<exists>i < length connections.
              connection = connections ! i \<and>
              n \<in> name ` set (snd (?L ! i)) \<and>
              (\<forall>j < i. n \<notin> name ` set (snd (?L ! j)))"
      if d: "distinct (map getServerName connections)"
    proof -
      from first_owner_index [OF o] obtain i where i: "i < length ?L" "fst (?L ! i) = sn"
        "n \<in> name ` set (snd (?L ! i))" "\<forall>j < i. n \<notin> name ` set (snd (?L ! j))"
        by blast
      from i(1) have il: "i < length connections" by (simp add: length_toolListings)
      have "fst (?L ! i) = map fst ?L ! i" using i(1) by simp
      also have "\<dots> = getServerName (connections ! i)"
        using il by (simp add: toolListings_names)
      finally have "getServerName (connections ! i) = sn" using i(2) by simp
      with find_distinct_nth [OF d il] c have "connection = connections ! i" by simp
      with il i(3,4) show ?thesis by blast
    qed
    show ?thesis
      using t c unnamed idx tryDispatch_routed [OF t _ c, of rt] by blast
  qed
  from len card m route show ?thesis by blast
qed

lemma sample_listings:
  "toolListings sample_rt [serverA, serverB] s0
     = [(''serverA'', [toolData searchTool, toolData brokenTool]),
        (''serverB'', [toolData searchTool])]"
  by (simp add: listTools_def emit_def Let_def sample_rt_def s0_def serverA_def serverB_def)

lemma sample_catalog:
  "fst (fetchAllTools sample_rt [serverA, serverB] ([], Map.empty, s0)) = sample_tools"
  unfolding fetchAllTools_fst sample_listings
  by (simp add: tagTools_def toolData_def searchTool_def brokenTool_def sample_tools_def)

lemma sample_owners:
  "owners (toolListings sample_rt [serverA, serverB] s0) ''search'' = [''serverA'', ''serverB'']"
  unfolding sample_listings
  by (simp add: owners_def toolData_def searchTool_def brokenTool_def)

lemma sample_dispatch_search:
  "tryDispatch sample_rt sample_tools [serverA, serverB] ''search'' (JObj []) s0
     = (Inr (''serverA'', JObj [(''result'', JNum 42)]),
        \<lparr> world = 0,
          trace = [ConsoleLog ''Calling tool search on server serverA'',
                   ConsoleLogJson ''Calling MCP tool search with args:'' (JObj []),
                   ClientCallTool 1 ''search'' (JObj [])] \<rparr>)"
  by (simp add: tryDispatch_def callTool_def emit_def Let_def sample_defs)

lemma unnamed_listings:
  "toolListings sample_rt [unnamed] s0 = [([], [toolData searchTool, toolData brokenTool])]"
  by (simp add: listTools_def emit_def Let_def sample_rt_def s0_def unnamed_def)

lemma unnamed_owners: "owners (toolListings sample_rt [unnamed] s0) ''search'' = [[]]"
  unfolding unnamed_listings
  by (simp add: owners_def toolData_def searchTool_def brokenTool_def)

theorem first_listing_owns_dispatch_witness:
  "fetchAllTools sample_rt [serverA, serverB] ([], Map.empty, s0)
     = (sample_tools,
        fst (snd (fetchAllTools sample_rt [serverA, serverB] ([], Map.empty, s0))),
        snd (snd (fetchAllTools sample_rt [serverA, serverB] ([], Map.empty, s0)))) \<and>
   owners (toolListings sample_rt [serverA, serverB] s0) ''search'' = [''serverA'', ''serverB''] \<and>
   ''serverA'' \<noteq> [] \<and>
   distinct (map getServerName [serverA, serverB]) \<and>
   length sample_tools
     = (\<Sum>(sn, ts) \<leftarrow> toolListings sample_rt [serverA, serverB] s0. length ts) \<and>
   fst (snd (fetchAllTools sample_rt [serverA, serverB] ([], Map.empty, s0))) ''search''
     = Some ''serverB'' \<and>
   (\<exists>tool. find (\<lambda>t. name t = ''search'') sample_tools = Some tool
           \<and> serverName tool = Some ''serverA'') \<and>
   (\<exists>connection.
      find (\<lambda>c. getServerName c = ''serverA'') [serverA, serverB] = Some connection \<and>
      (\<exists>i < length [serverA, serverB].
         connection = [serverA, serverB] ! i \<and>
         ''search'' \<in> name ` set (snd (toolListings sample_rt [serverA, serverB] s0 ! i)) \<and>
         (\<forall>j < i. ''search''
                   \<notin> name ` set (snd (toolListings sample_rt [serverA, serverB] s0 ! j)))) \<and>
      tryDispatch sample_rt sample_tools [serverA, serverB] ''search'' (JObj []) s0 =
        (case callTool sample_rt connection ''search'' (JObj [])
                (emit (ConsoleLog (''Calling tool '' @ ''search'' @ '' on server '' @ ''serverA'')) s0) of
           (r, s2) \<Rightarrow>
             (case r of Inl e \<Rightarrow> (Inl e, s2) | Inr v \<Rightarrow> (Inr (''serverA'', v), s2)))) \<and>
   owners (toolListings sample_rt [unnamed] s0) ''search'' = [[]] \<and>
   tryDispatch sample_rt (fst (fetchAllTools sample_rt [unnamed] ([], Map.empty, s0))) [unnamed]
       ''search'' (JObj []) s0
     = (Inl (Error None (''No server name found for tool '' @ ''search'')), s0)"
proof -
  have h: "fetchAllTools sample_rt [serverA, serverB] ([], Map.empty, s0)
     = (sample_tools,
        fst (snd (fetchAllTools sample_rt [serverA, serverB] ([], Map.empty, s0))),
        snd (snd (fetchAllTools sample_rt [serverA, serverB] ([], Map.empty, s0))))"
    using sample_catalog by (metis prod.collapse)
  have ne: "''serverA'' \<noteq> []" by simp
  have d: "distinct (map getServerName [serverA, serverB])"
    by (simp add: serverA_def serverB_def)
  note t = first_listing_owns_dispatch [OF h]
  from t have "length sample_tools
     = (\<Sum>(sn, ts) \<leftarrow> toolListings sample_rt [serverA, serverB] s0. length ts)"
    by blast
  moreover from t have eq: "fst (snd (fetchAllTools sample_rt [serverA, serverB] ([], Map.empty, s0)))
       = lastOwner (toolListings sample_rt [serverA, serverB] s0)"
    by blast
  have "fst (snd (fetchAllTools sample_rt [serverA, serverB] ([], Map.empty, s0))) ''search''
     = Some ''serverB''"
    unfolding eq lastOwner_def sample_owners by simp
  moreover from t sample_owners ne
  have "(\<exists>tool. find (\<lambda>t. name t = ''search'') sample_tools = Some tool
           \<and> serverName tool = Some ''serverA'')"
    by blast
  moreover from t sample_owners ne d
  have "(\<exists>connection.
      find (\<lambda>c. getServerName c = ''serverA'') [serverA, serverB] = Some connection \<and>
      (\<exists>i < length [serverA, serverB].
         connection = [serverA, serverB] ! i \<and>
         ''search'' \<in> name ` set (snd (toolListings sample_rt [serverA, serverB] s0 ! i)) \<and>
         (\<forall>j < i. ''search''
                   \<notin> name ` set (snd (toolListings sample_rt [serverA, serverB] s0 ! j)))) \<and>
      tryDispatch sample_rt sample_tools [serverA, serverB] ''search'' (JObj []) s0 =
        (case callTool sample_rt connection ''search'' (JObj [])
                (emit (ConsoleLog (''Calling tool '' @ ''search'' @ '' on server '' @ ''serverA'')) s0) of
           (r, s2) \<Rightarrow>
             (case r of Inl e \<Rightarrow> (Inl e, s2) | Inr v \<Rightarrow> (Inr (''serverA'', v), s2))))"
    by blast
  moreover have "tryDispatch sample_rt (fst (fetchAllTools sample_rt [unnamed] ([], Map.empty, s0)))
       [unnamed] ''search'' (JObj []) s0
     = (Inl (Error None (''No server name found for tool '' @ ''search'')), s0)"
  proof -
    have hu: "fetchAllTools sample_rt [unnamed] ([], Map.empty, s0)
      = (fst (fetchAllTools sample_rt [unnamed] ([], Map.empty, s0)),
         fst (snd (fetchAllTools sample_rt [unnamed] ([], Map.empty, s0))),
         snd (snd (fetchAllTools sample_rt [unnamed] ([], Map.empty, s0))))"
      by simp
    from first_listing_owns_dispatch [OF hu] unnamed_owners show ?thesis by blast
  qed
  ultimately show ?thesis using h sample_owners unnamed_owners ne d by blast
qed

text \<open>
  In the sample runtime both servers list \<open>search\<close>, \<open>serverB\<close> last; a dispatch of
  \<open>search\<close> calls the client of \<open>serverA\<close>.
\<close>

theorem last_listing_owns_dispatch_counterexample:
  "fst (fetchAllTools sample_rt [serverA, serverB] ([], Map.empty, s0)) = sample_tools \<and>
   owners (toolListings sample_rt [serverA, serverB] s0) ''search'' = [''serverA'', ''serverB''] \<and>
   getClient serverA = Some 1 \<and> getClient serverB = Some 2 \<and>
   tryDispatch sample_rt sample_tools [serverA, serverB] ''search'' (JObj []) s0
     = (Inr (''serverA'', JObj [(''result'', JNum 42)]),
        \<lparr> world = 0,
          trace = [ConsoleLog ''Calling tool search on server serverA'',
                   ConsoleLogJson ''Calling MCP tool search with args:'' (JObj []),
                   ClientCallTool 1 ''search'' (JObj [])] \<rparr>)"
  unfolding sample_catalog sample_owners sample_dispatch_search
  by (simp add: serverA_def serverB_def)


section \<open>The chat loop\<close>

text \<open>
  C6: when the call of the model throws in a turn, the loop appends the fixed apology to
  the history as the assistant's message, after the user's message, and goes on with
  the next line of input; the messages that were in the history stay as they were. With
  no further line the session is still active and waits at the prompt.
\<close>

theorem model_failure_apology:
  assumes "toLowerCase userInput \<noteq> ''exit''" and "toLowerCase userInput \<noteq> ''quit''"
    and "callLLM rt (history @ [\<lparr> role = ''user'', content = Text userInput \<rparr>]) allTools connections
           (emit (ConsoleLog ''AI is thinking...'') (emit (Question ''You: '') s))
         = (Inl error, s3)"
  shows "chatLoop rt allTools connections (userInput # rest) (history, s)
           = chatLoop rt allTools connections rest
               (history @ [\<lparr> role = ''user'', content = Text userInput \<rparr>,
                           \<lparr> role = ''assistant'', content = Text errorMessage \<rparr>],
                emit (ConsoleLog (''AI: '' @ errorMessage))
                  (emit (ConsoleErrorObj ''Error calling LLM:'' error) s3)) \<and>
         chatLoop rt allTools connections [userInput] (history, s)
           = (True,
              history @ [\<lparr> role = ''user'', content = Text userInput \<rparr>,
                         \<lparr> role = ''assistant'', content = Text errorMessage \<rparr>],
              emit (Question ''You: '')
                (emit (ConsoleLog (''AI: '' @ errorMessage))
                   (emit (ConsoleErrorObj ''Error calling LLM:'' error) s3)))"
  using assms by (simp add: Let_def)

lemma offline_turn:
  "callLLM offline_rt (sample_history @ [\<lparr> role = ''user'', content = Text ''hello'' \<rparr>])
     sample_tools [serverA, serverB]
     (emit (ConsoleLog ''AI is thinking...'') (emit (Question ''You: '') s0))
   = (Inl (Error None ''fetch failed''),
      \<lparr> world = 0,
        trace = [Question ''You: '', ConsoleLog ''AI is thinking...'',
                 Fetch (firstRequest offline_rt
                          (sample_history @ [\<lparr> role = ''user'', content = Text ''hello'' \<rparr>])
                          sample_tools),
                 ConsoleErrorObj ''Error in callLLM:'' (Error None ''fetch failed'')] \<rparr>)"
  by (simp add: callLLM_def callLLM_try_def modelReply_def apiKey_def provider_def emit_def
        offline_rt_def sample_rt_def s0_def Let_def)

theorem model_failure_apology_witness:
  "toLowerCase ''hello'' \<noteq> ''exit'' \<and> toLowerCase ''hello'' \<noteq> ''quit'' \<and>
   chatLoop offline_rt sample_tools [serverA, serverB] [''hello''] (sample_history, s0)
     = (True,
        sample_history @ [\<lparr> role = ''user'', content = Text ''hello'' \<rparr>,
                          \<lparr> role = ''assistant'', content = Text errorMessage \<rparr>],
        \<lparr> world = 0,
          trace = [Question ''You: '', ConsoleLog ''AI is thinking...'',
                   Fetch (firstRequest offline_rt
                            (sample_history @ [\<lparr> role = ''user'', content = Text ''hello'' \<rparr>])
                            sample_tools),
                   ConsoleErrorObj ''Error in callLLM:'' (Error None ''fetch failed''),
                   ConsoleErrorObj ''Error calling LLM:'' (Error None ''fetch failed''),
                   ConsoleLog (''AI: '' @ errorMessage),
                   Question ''You: ''] \<rparr>)"
proof -
  have h1: "toLowerCase ''hello'' \<noteq> ''exit''" by (simp add: toLowerCase_def)
  have h2: "toLowerCase ''hello'' \<noteq> ''quit''" by (simp add: toLowerCase_def)
  from model_failure_apology [OF h1 h2 offline_turn, of "[]"] h1 h2
  show ?thesis by (simp add: emit_def)
qed

section \<open>Starting a session\<close>

lemma connectEvent_quiet: "list_all connectEvent es \<Longrightarrow> fetches es = [] \<and> questions es = []"
proof (induction es)
  case Nil
  show ?case by simp
next
  case (Cons e es)
  then show ?case by (cases e) simp_all
qed

lemma connect_events:
  "\<exists>es. trace (snd (connect rt sn s)) = trace s @ es \<and> list_all connectEvent es"
  by (simp add: connect_def Let_def split: option.splits prod.splits sum.splits)

lemma connectLoop_events:
  "\<exists>es. trace (snd (connectLoop rt sns acc)) = trace (snd acc) @ es \<and> list_all connectEvent es"
proof (induction sns arbitrary: acc)
  case Nil
  show ?case by simp
next
  case (Cons sn sns)
  obtain cs s where acc: "acc = (cs, s)" by (cases acc) auto
  obtain ok msg c s2 where c:
    "connect rt sn (emit (ConsoleLog (''Connecting to server: '' @ sn)) s) = ((ok, msg, c), s2)"
    by (metis prod.collapse)
  from connect_events [of rt sn "emit (ConsoleLog (''Connecting to server: '' @ sn)) s"] c
  obtain es1 where es1:
    "trace s2 = trace s @ ConsoleLog (''Connecting to server: '' @ sn) # es1"
    "list_all connectEvent es1"
    by auto
  show ?case
  proof (cases ok)
    case True
    from Cons.IH [of "(cs @ [c], emit (ConsoleLog msg) s2)"] obtain es2 where
      "trace (snd (connectLoop rt sns (cs @ [c], emit (ConsoleLog msg) s2)))
         = trace s2 @ ConsoleLog msg # es2" "list_all connectEvent es2"
      by auto
    with es1 True c have
      "trace (snd (connectLoop rt (sn # sns) acc))
         = trace (snd acc) @ (ConsoleLog (''Connecting to server: '' @ sn) # es1 @ ConsoleLog msg # es2)
       \<and> list_all connectEvent (ConsoleLog (''Connecting to server: '' @ sn) # es1 @ ConsoleLog msg # es2)"
      by (simp add: acc)
    then show ?thesis by blast
  next
    case False
    from Cons.IH [of "(cs, emit (ConsoleError msg) s2)"] obtain es2 where
      "trace (snd (connectLoop rt sns (cs, emit (ConsoleError msg) s2)))
         = trace s2 @ ConsoleError msg # es2" "list_all connectEvent es2"
      by auto
    with es1 False c have
      "trace (snd (connectLoop rt (sn # sns) acc))
         = trace (snd acc) @ (ConsoleLog (''Connecting to server: '' @ sn) # es1 @ ConsoleError msg # es2)
       \<and> list_all connectEvent (ConsoleLog (''Connecting to server: '' @ sn) # es1 @ ConsoleError msg # es2)"
      by (simp add: acc)
    then show ?thesis by blast
  qed
qed

lemma connectToAllServers_events:
  "\<exists>es. trace (snd (connectToAllServers rt s)) = trace s @ es \<and> list_all connectEvent es"
proof (cases "map fst (mcpServers rt) = []")
  case True
  then show ?thesis by (simp add: connectToAllServers_def)
next
  case False
  from connectLoop_events
         [of rt "map fst (mcpServers rt)"
             "([], emit (ConsoleLog (''Starting '' @ digits (length (map fst (mcpServers rt)))
                                     @ '' servers...'')) s)"]
  obtain es where
    "trace (snd (connectLoop rt (map fst (mcpServers rt))
                   ([], emit (ConsoleLog (''Starting '' @ digits (length (map fst (mcpServers rt)))
                                          @ '' servers...'')) s)))
       = trace s @ ConsoleLog (''Starting '' @ digits (length (map fst (mcpServers rt)))
                               @ '' servers...'') # es"
    "list_all connectEvent es"
    by auto
  with False have
    "trace (snd (connectToAllServers rt s))
       = trace s @ (ConsoleLog (''Starting '' @ digits (length (map fst (mcpServers rt)))
                               @ '' servers...'') # es)
     \<and> list_all connectEvent (ConsoleLog (''Starting '' @ digits (length (map fst (mcpServers rt)))
                               @ '' servers...'') # es)"
    by (simp add: connectToAllServers_def Let_def)
  then show ?thesis by blast
qed

text \<open>
  C8, as the code has it: when the API key is found and no server could be connected,
  \<open>startChatSession\<close> asks no question and sends no request to the model, whatever input
  is waiting. The message that no server could be connected is not the only output: the
  two lines of the greeting, the line \<open>Connecting to all available MCP servers...\<close> and
  the lines and connection attempts of \<open>connectToAllServers\<close> come before it. Nothing
  comes after it: the readline interface is closed and the function returns. When the
  API key is not found no connection is attempted: after the greeting the two lines
  about the key are printed, the readline interface is closed and the function returns.
\<close>

theorem no_connections_no_session:
  "(\<not> checkOpenAIKey rt \<longrightarrow>
      startChatSession rt inputs s
        = (Returned, [],
           s\<lparr> trace := trace s @
                [ConsoleLog ''Starting chat session with LLM...'',
                 ConsoleLog (''Type '' @ [SQ] @ ''exit'' @ [SQ] @ '' or '' @ [SQ] @ ''quit''
                             @ [SQ] @ '' to end the session.'' @ [LF]),
                 ConsoleLog ''OpenAI API key not found. Please set the OPENAI_API_KEY environment variable.'',
                 ConsoleLog (''You can create a .env file in the current directory or in your home directory with:''
                             @ [LF] @ ''OPENAI_API_KEY=your_api_key''),
                 RlClose] \<rparr>)) \<and>
   (\<forall>s2. checkOpenAIKey rt \<and>
          connectToAllServers rt
            (emit (ConsoleLog ''Connecting to all available MCP servers...'') (greeting s))
          = ([], s2) \<longrightarrow>
      startChatSession rt inputs s
        = (Returned, [systemMessage], emit RlClose (emit (ConsoleLog noServersMessage) s2)) \<and>
      (\<exists>es. trace (emit RlClose (emit (ConsoleLog noServersMessage) s2))
               = trace s
                 @ [ConsoleLog ''Starting chat session with LLM...'',
                    ConsoleLog (''Type '' @ [SQ] @ ''exit'' @ [SQ] @ '' or '' @ [SQ] @ ''quit''
                                @ [SQ] @ '' to end the session.'' @ [LF]),
                    ConsoleLog ''Connecting to all available MCP servers...'']
                 @ es @ [ConsoleLog noServersMessage, RlClose] \<and>
             list_all connectEvent es) \<and>
      questions (trace (emit RlClose (emit (ConsoleLog noServersMessage) s2)))
        = questions (trace s) \<and>
      fetches (trace (emit RlClose (emit (ConsoleLog noServersMessage) s2)))
        = fetches (trace s))"
proof -
  have nokey: "startChatSession rt inputs s
        = (Returned, [],
           s\<lparr> trace := trace s @
                [ConsoleLog ''Starting chat session with LLM...'',
                 ConsoleLog (''Type '' @ [SQ] @ ''exit'' @ [SQ] @ '' or '' @ [SQ] @ ''quit''
                             @ [SQ] @ '' to end the session.'' @ [LF]),
                 ConsoleLog ''OpenAI API key not found. Please set the OPENAI_API_KEY environment variable.'',
                 ConsoleLog (''You can create a .env file in the current directory or in your home directory with:''
                             @ [LF] @ ''OPENAI_API_KEY=your_api_key''),
                 RlClose] \<rparr>)"
    if "\<not> checkOpenAIKey rt"
    using that by (simp add: startChatSession_def greeting_def emit_def)
  have noconn:
    "startChatSession rt inputs s
        = (Returned, [systemMessage], emit RlClose (emit (ConsoleLog noServersMessage) s2)) \<and>
      (\<exists>es. trace (emit RlClose (emit (ConsoleLog noServersMessage) s2))
               = trace s
                 @ [ConsoleLog ''Starting chat session with LLM...'',
                    ConsoleLog (''Type '' @ [SQ] @ ''exit'' @ [SQ] @ '' or '' @ [SQ] @ ''quit''
                                @ [SQ] @ '' to end the session.'' @ [LF]),
                    ConsoleLog ''Connecting to all available MCP servers...'']
                 @ es @ [ConsoleLog noServersMessage, RlClose] \<and>
             list_all connectEvent es) \<and>
      questions (trace (emit RlClose (emit (ConsoleLog noServersMessage) s2)))
        = questions (trace s) \<and>
      fetches (trace (emit RlClose (emit (ConsoleLog noServersMessage) s2)))
        = fetches (trace s)"
    if k: "checkOpenAIKey rt"
      and c: "connectToAllServers rt
            (emit (ConsoleLog ''Connecting to all available MCP servers...'') (greeting s))
          = ([], s2)"
    for s2
  proof -
    from connectToAllServers_events
           [of rt "emit (ConsoleLog ''Connecting to all available MCP servers...'') (greeting s)"] c
    obtain es where es:
      "trace s2 = trace s
                 @ [ConsoleLog ''Starting chat session with LLM...'',
                    ConsoleLog (''Type '' @ [SQ] @ ''exit'' @ [SQ] @ '' or '' @ [SQ] @ ''quit''
                                @ [SQ] @ '' to end the session.'' @ [LF]),
                    ConsoleLog ''Connecting to all available MCP servers...'']
                 @ es"
      "list_all connectEvent es"
      by (auto simp: greeting_def)
    from connectEvent_quiet [OF es(2)] es(1)
    have q: "fetches (trace s2) = fetches (trace s)" "questions (trace s2) = questions (trace s)"
      by simp_all
    have "startChatSession rt inputs s
        = (Returned, [systemMessage], emit RlClose (emit (ConsoleLog noServersMessage) s2))"
      using k c by (simp add: startChatSession_def)
    moreover have "trace (emit RlClose (emit (ConsoleLog noServersMessage) s2))
               = trace s
                 @ [ConsoleLog ''Starting chat session with LLM...'',
                    ConsoleLog (''Type '' @ [SQ] @ ''exit'' @ [SQ] @ '' or '' @ [SQ] @ ''quit''
                                @ [SQ] @ '' to end the session.'' @ [LF]),
                    ConsoleLog ''Connecting to all available MCP servers...'']
                 @ es @ [ConsoleLog noServersMessage, RlClose]"
      by (simp add: es(1))
    ultimately show ?thesis using es(2) q by auto
  qed
  from nokey noconn show ?thesis by blast
qed

lemma unreachable_connect:
  "connectToAllServers unreachable_rt
     (emit (ConsoleLog ''Connecting to all available MCP servers...'') (greeting s0))
   = ([], \<lparr> world = 0,
           trace = [ConsoleLog ''Starting chat session with LLM...'',
                    ConsoleLog (''Type '' @ [SQ] @ ''exit'' @ [SQ] @ '' or '' @ [SQ] @ ''quit''
                                @ [SQ] @ '' to end the session.'' @ [LF]),
                    ConsoleLog ''Connecting to all available MCP servers...'',
                    ConsoleLog ''Starting 1 servers...'',
                    ConsoleLog ''Connecting to server: serverC'',
                    ClientConnect ''serverC'',
                    ConsoleError ''Failed to connect to serverC: spawn ENOENT''] \<rparr>)"
  by (simp add: connectToAllServers_def connect_def greeting_def emit_def Let_def
        unreachable_rt_def sample_rt_def s0_def digits.simps digit_char_def)

lemma unreachable_session:
  "startChatSession unreachable_rt [''hello'', ''quit''] s0
     = (Returned, [systemMessage],
        \<lparr> world = 0,
          trace = [ConsoleLog ''Starting chat session with LLM...'',
                   ConsoleLog (''Type '' @ [SQ] @ ''exit'' @ [SQ] @ '' or '' @ [SQ] @ ''quit''
                               @ [SQ] @ '' to end the session.'' @ [LF]),
                   ConsoleLog ''Connecting to all available MCP servers...'',
                   ConsoleLog ''Starting 1 servers...'',
                   ConsoleLog ''Connecting to server: serverC'',
                   ClientConnect ''serverC'',
                   ConsoleError ''Failed to connect to serverC: spawn ENOENT'',
                   ConsoleLog noServersMessage,
                   RlClose] \<rparr>)"
proof -
  have "checkOpenAIKey unreachable_rt"
    by (simp add: checkOpenAIKey_def unreachable_rt_def sample_rt_def)
  with unreachable_connect show ?thesis
    by (simp add: startChatSession_def emit_def)
qed

theorem no_connections_no_session_witness:
  "\<not> checkOpenAIKey keyless_rt \<and>
   startChatSession keyless_rt [''hello'', ''quit''] s0
     = (Returned, [],
        \<lparr> world = 0,
          trace = [ConsoleLog ''Starting chat session with LLM...'',
                   ConsoleLog (''Type '' @ [SQ] @ ''exit'' @ [SQ] @ '' or '' @ [SQ] @ ''quit''
                               @ [SQ] @ '' to end the session.'' @ [LF]),
                   ConsoleLog ''OpenAI API key not found. Please set the OPENAI_API_KEY environment variable.'',
                   ConsoleLog (''You can create a .env file in the current directory or in your home directory with:''
                               @ [LF] @ ''OPENAI_API_KEY=your_api_key''),
                   RlClose] \<rparr>) \<and>
   checkOpenAIKey unreachable_rt \<and>
   connectToAllServers unreachable_rt
     (emit (ConsoleLog ''Connecting to all available MCP servers...'') (greeting s0))
   = ([], \<lparr> world = 0,
           trace = [ConsoleLog ''Starting chat session with LLM...'',
                    ConsoleLog (''Type '' @ [SQ] @ ''exit'' @ [SQ] @ '' or '' @ [SQ] @ ''quit''
                                @ [SQ] @ '' to end the session.'' @ [LF]),
                    ConsoleLog ''Connecting to all available MCP servers...'',
                    ConsoleLog ''Starting 1 servers...'',
                    ConsoleLog ''Connecting to server: serverC'',
                    ClientConnect ''serverC'',
                    ConsoleError ''Failed to connect to serverC: spawn ENOENT''] \<rparr>) \<and>
   startChatSession unreachable_rt [''hello'', ''quit''] s0
     = (Returned, [systemMessage],
        \<lparr> world = 0,
          trace = [ConsoleLog ''Starting chat session with LLM...'',
                   ConsoleLog (''Type '' @ [SQ] @ ''exit'' @ [SQ] @ '' or '' @ [SQ] @ ''quit''
                               @ [SQ] @ '' to end the session.'' @ [LF]),
                   ConsoleLog ''Connecting to all available MCP servers...'',
                   ConsoleLog ''Starting 1 servers...'',
                   ConsoleLog ''Connecting to server: serverC'',
                   ClientConnect ''serverC'',
                   ConsoleError ''Failed to connect to serverC: spawn ENOENT'',
                   ConsoleLog noServersMessage,
                   RlClose] \<rparr>) \<and>
   questions (trace (snd (snd (startChatSession unreachable_rt [''hello'', ''quit''] s0)))) = [] \<and>
   fetches (trace (snd (snd (startChatSession unreachable_rt [''hello'', ''quit''] s0)))) = []"
proof -
  have h0: "\<not> checkOpenAIKey keyless_rt"
    by (simp add: checkOpenAIKey_def envFileHasKey_def keyless_rt_def sample_rt_def)
  have h1: "checkOpenAIKey unreachable_rt"
    by (simp add: checkOpenAIKey_def unreachable_rt_def sample_rt_def)
  from no_connections_no_session [of keyless_rt "[''hello'', ''quit'']" s0] h0
  have a: "startChatSession keyless_rt [''hello'', ''quit''] s0
     = (Returned, [],
        \<lparr> world = 0,
          trace = [ConsoleLog ''Starting chat session with LLM...'',
                   ConsoleLog (''Type '' @ [SQ] @ ''exit'' @ [SQ] @ '' or '' @ [SQ] @ ''quit''
                               @ [SQ] @ '' to end the session.'' @ [LF]),
                   ConsoleLog ''OpenAI API key not found. Please set the OPENAI_API_KEY environment variable.'',
                   ConsoleLog (''You can create a .env file in the current directory or in your home directory with:''
                               @ [LF] @ ''OPENAI_API_KEY=your_api_key''),
                   RlClose] \<rparr>)"
    by (simp add: s0_def)
  from no_connections_no_session [of unreachable_rt "[''hello'', ''quit'']" s0] h1 unreachable_connect
  have b: "startChatSession unreachable_rt [''hello'', ''quit''] s0
     = (Returned, [systemMessage],
        \<lparr> world = 0,
          trace = [ConsoleLog ''Starting chat session with LLM...'',
                   ConsoleLog (''Type '' @ [SQ] @ ''exit'' @ [SQ] @ '' or '' @ [SQ] @ ''quit''
                               @ [SQ] @ '' to end the session.'' @ [LF]),
                   ConsoleLog ''Connecting to all available MCP servers...'',
                   ConsoleLog ''Starting 1 servers...'',
                   ConsoleLog ''Connecting to server: serverC'',
                   ClientConnect ''serverC'',
                   ConsoleError ''Failed to connect to serverC: spawn ENOENT'',
                   ConsoleLog noServersMessage,
                   RlClose] \<rparr>)"
    by (simp add: emit_def)
  have c: "questions (trace (snd (snd (startChatSession unreachable_rt [''hello'', ''quit''] s0)))) = []"
    "fetches (trace (snd (snd (startChatSession unreachable_rt [''hello'', ''quit''] s0)))) = []"
    unfolding b by simp_all
  from h0 a h1 unreachable_connect b c show ?thesis by blast
qed

text \<open>
  In the sample runtime whose only server cannot be started no connection is
  established; seven lines are written to the console before the message that no
  server could be connected.
\<close>

theorem only_fatal_message_counterexample:
  "fst (connectToAllServers unreachable_rt
          (emit (ConsoleLog ''Connecting to all available MCP servers...'') (greeting s0))) = [] \<and>
   trace (snd (snd (startChatSession unreachable_rt [''hello'', ''quit''] s0)))
     = [ConsoleLog ''Starting chat session with LLM...'',
        ConsoleLog (''Type '' @ [SQ] @ ''exit'' @ [SQ] @ '' or '' @ [SQ] @ ''quit''
                    @ [SQ] @ '' to end the session.'' @ [LF]),
        ConsoleLog ''Connecting to all available MCP servers...'',
        ConsoleLog ''Starting 1 servers...'',
        ConsoleLog ''Connecting to server: serverC'',
        ClientConnect ''serverC'',
        ConsoleError ''Failed to connect to serverC: spawn ENOENT'',
        ConsoleLog noServersMessage,
        RlClose] \<and>
   ConsoleLog ''Starting chat session with LLM...'' \<noteq> ConsoleLog noServersMessage"
  unfolding unreachable_connect unreachable_session
  by (simp add: noServersMessage_def)


end
